theory Spec2Isabelle
  imports Main "HOL-Library.Sublist" "HOL-Library.Char_ord" "HOL-Library.List_Lexorder"
    "HOL-Library.Multiset"
begin

section \<open>json-notify: a shallow embedding\<close>

text \<open>
  The program polls a JSON endpoint, compares the fetched document with the stored
  snapshot, asks a language model for a summary and a verdict, sends a Telegram message
  and stores the new snapshot. Each source function is a HOL function of the same name.
  An asynchronous function that can reject returns a sum, \<open>Inl\<close> the value thrown; module
  variables and the file system are passed in and returned; what belongs to a package or
  to the platform (the diff, the AI and the Telegram clients, \<^verbatim>\<open>JSON\<close>) is a parameter.
  Console output is kept for the notifier, whose contract is about it, and left out
  elsewhere.

  JavaScript strings are \<^typ>\<open>string\<close>: every character the code tests for is ASCII, and in
  UTF-8 no byte of a longer sequence coincides with an ASCII byte. The two length limits
  of the program (3000 and 500) count UTF-16 code units there and \<^typ>\<open>char\<close>s here; on
  ASCII text they are the same.
\<close>

subsection \<open>notifier.ts: escapeMarkdownV2\<close>

definition backslash :: char where
  "backslash = CHR 0x5C"

text \<open>
  The character class of the pattern
  \<^verbatim>\<open>/(?<!\\)([\_*[\]()~`>#+\-=|{}.!])/g\<close>: eighteen characters.
\<close>

definition reserved :: "char \<Rightarrow> bool" where
  "reserved c = (c \<in> set [CHR ''_'', CHR ''*'', CHR ''['', CHR '']'', CHR ''('', CHR '')'',
     CHR ''~'', CHR 0x60, CHR ''>'', CHR ''#'', CHR ''+'', CHR ''-'', CHR ''='', CHR ''|'',
     CHR ''{'', CHR ''}'', CHR ''.'', CHR ''!''])"

text \<open>
  \<^verbatim>\<open>text.replace(pattern, '\\$1')\<close> with the global flag scans the subject from left to
  right. A match is one character of the class whose predecessor in the subject is not a
  backslash (the negative lookbehind); it is replaced by a backslash and itself. Every
  other character is copied. \<open>afterBackslash\<close> says whether the character just read was
  a backslash; at the start of the subject the lookbehind succeeds.
\<close>

fun replace_scan :: "bool \<Rightarrow> string \<Rightarrow> string" where
  "replace_scan afterBackslash [] = []"
| "replace_scan afterBackslash (c # cs) =
     (if reserved c \<and> \<not> afterBackslash
      then backslash # c # replace_scan (c = backslash) cs
      else c # replace_scan (c = backslash) cs)"

definition escapeMarkdownV2 :: "string \<Rightarrow> string" where
  "escapeMarkdownV2 text = replace_scan False text"

text \<open>
  The rule as the specification words it: a reserved character is left alone only where
  it is preceded by an \<^emph>\<open>unescaped\<close> backslash. In a run of backslashes the first is
  unescaped, the second is escaped by the first, the third is unescaped again, and so on;
  the backslash right before position \<open>i\<close> is unescaped exactly when the run of backslashes
  ending there has odd length.
\<close>

definition backslashes_before :: "string \<Rightarrow> nat \<Rightarrow> nat" where
  "backslashes_before s i = length (takeWhile (\<lambda>c. c = backslash) (rev (take i s)))"

definition escape_as_specified :: "string \<Rightarrow> string" where
  "escape_as_specified s =
     concat (map (\<lambda>i. if reserved (s ! i) \<and> \<not> odd (backslashes_before s i)
                         then [backslash, s ! i] else [s ! i]) [0..<length s])"


subsection \<open>JavaScript values\<close>

text \<open>
  A JSON document as \<^verbatim>\<open>JSON.parse\<close> and \<^verbatim>\<open>response.json()\<close> deliver it. An object keeps
  its members in insertion order. A number is held as its decimal rendering
  (\<^verbatim>\<open>'' + n\<close>), which is all the program ever does with one.
\<close>

datatype json =
    JNull
  | JBool bool
  | JNum string
  | JStr string
  | JArr "json list"
  | JObj "(string \<times> json) list"

text \<open>
  What a \<^verbatim>\<open>catch (error: any)\<close> clause can receive: \<^verbatim>\<open>undefined\<close>, \<^verbatim>\<open>null\<close>, or a value
  with the properties the handlers of this program read: whether it is an \<^verbatim>\<open>Error\<close>
  instance, its \<^verbatim>\<open>message\<close>, \<^verbatim>\<open>stack\<close> and \<^verbatim>\<open>code\<close> properties where present, and
  the text \<^verbatim>\<open>String(error)\<close> gives. An error the program itself creates has its first
  stack line only; the frames below it depend on the engine.
\<close>

datatype thrown =
    Undefined
  | Null
  | Thrown (instanceof_Error: bool) (message: "string option") (stack: "string option")
      (code: "string option") (String_of: string)

definition new_Error :: "string \<Rightarrow> thrown" where
  "new_Error msg = Thrown True (Some msg) (Some (''Error: '' @ msg)) None (''Error: '' @ msg)"

definition TypeError :: "string \<Rightarrow> thrown" where
  "TypeError msg =
     Thrown True (Some msg) (Some (''TypeError: '' @ msg)) None (''TypeError: '' @ msg)"

definition String :: "thrown \<Rightarrow> string" where
  "String e = (case e of Undefined \<Rightarrow> ''undefined'' | Null \<Rightarrow> ''null''
                | Thrown _ _ _ _ s \<Rightarrow> s)"

definition newline :: char where
  "newline = CHR 0x0A"

definition dquote :: char where
  "dquote = CHR 0x22"

definition backtick :: char where
  "backtick = CHR 0x60"

subsection \<open>config.ts\<close>

text \<open>
  The fields the core reads. \<^verbatim>\<open>getEnvVar\<close> yields the empty string for an optional
  variable that is not set, and the empty string is the one falsy string.
  \<^verbatim>\<open>stateFilePath\<close> is what \<^verbatim>\<open>path.resolve\<close> returns, an absolute path without empty,
  \<^verbatim>\<open>.\<close> or \<^verbatim>\<open>..\<close> components; such a path is held as the list of its components, the
  root first, so \<^verbatim>\<open>/tmp/state.json\<close> is \<open>[''tmp'', ''state.json'']\<close> and the root
  directory is the empty list.
\<close>

type_synonym path = "string list"

record config =
  jsonUrl :: string
  openaiModelName :: string
  openaiCustomPromptContext :: string
  telegramBotToken :: string
  telegramChatId :: string
  stateFilePath :: path

subsection \<open>aiProcessor.ts\<close>

text \<open>
  A part of a diff as the \<^verbatim>\<open>diff\<close> package types it; the program reads \<^verbatim>\<open>value\<close>
  (the field \<open>value_str\<close> here), \<^verbatim>\<open>added\<close> and \<^verbatim>\<open>removed\<close> (a missing flag is falsy).
\<close>

record Change =
  value_str :: string
  added :: bool
  removed :: bool

record ChangeSummaryResult =
  isWorthToReport :: bool
  reportedChanges :: string

text \<open>
  The arguments of \<^verbatim>\<open>generateObject\<close>: the model name, the system and the user message,
  the temperature (a constant, kept as its literal) and the mode. The schema argument is
  the constant \<^verbatim>\<open>ChangeSummarySchema\<close>.
\<close>

record ai_request =
  model :: string
  system_content :: string
  user_content :: string
  temperature :: string
  mode :: string

text \<open>
  \<^verbatim>\<open>String.prototype.trim\<close> on the ASCII white space and line terminators.
\<close>

definition whitespace :: "char \<Rightarrow> bool" where
  "whitespace c = (c \<in> set [CHR '' '', CHR 0x09, CHR 0x0A, CHR 0x0B, CHR 0x0C, CHR 0x0D])"

definition trim :: "string \<Rightarrow> string" where
  "trim s = rev (dropWhile whitespace (rev (dropWhile whitespace s)))"

text \<open>
  \<^verbatim>\<open>formatDiffForAI\<close>: the \<^verbatim>\<open>forEach\<close> loop appends one line per part and a separator
  line after every part but the last.
\<close>

definition part_line :: "Change \<Rightarrow> string" where
  "part_line part =
     (if added part then ''[ADDED]'' else ''[REMOVED]'') @ '' '' @ trim (value_str part)
       @ [newline]"

fun forEach_part :: "Change list \<Rightarrow> string" where
  "forEach_part [] = []"
| "forEach_part [part] = part_line part"
| "forEach_part (part # rest) = part_line part @ ''---'' @ [newline] @ forEach_part rest"

definition formatDiffForAI :: "Change list \<Rightarrow> string" where
  "formatDiffForAI changes =
     ''Detected changes:'' @ [newline, newline]
       @ forEach_part (filter (\<lambda>part. added part \<or> removed part) changes)"

definition systemPrompt :: "string \<Rightarrow> string" where
  "systemPrompt customContext =
     ''You are an assistant analyzing changes detected in a JSON object. Your goal is to provide a concise, human-readable summary of these changes and decide if they are significant enough to report based on specific criteria if provided.''
     @ [newline, newline]
     @ ''Input Diff Format:'' @ [newline]
     @ ''The diff shows changes using [ADDED] for new content and [REMOVED] for deleted content. Sections are separated by '---'.''
     @ [newline, newline]
     @ ''Tasks:'' @ [newline]
     @ ''1.  Analyze the provided diff carefully.'' @ [newline]
     @ ''2.  Generate a concise, human-readable summary focusing on the key changes (''
     @ [backtick] @ ''reportedChanges'' @ [backtick]
     @ ''). Ensure this summary is clear and informative.'' @ [newline]
     @ ''3.  Evaluate if the changes are significant enough to warrant reporting (''
     @ [backtick] @ ''isWorthToReport'' @ [backtick] @ '').'' @ [newline]
     @ ''    ''
     @ (if customContext \<noteq> []
        then ''CRITERIA FOR SIGNIFICANCE: '' @ [dquote] @ customContext @ [dquote]
          @ ''. Determine if the detected changes meet these criteria. If they do, set ''
          @ [backtick] @ ''isWorthToReport'' @ [backtick]
          @ '' to true. If they do not, set it to false.''
        else ''Since no specific reporting criteria are provided, consider ANY detected changes significant enough to report. Set ''
          @ [backtick] @ ''isWorthToReport'' @ [backtick] @ '' to true.'')
     @ [newline, newline]
     @ ''Output Format:'' @ [newline]
     @ ''Respond ONLY with a valid JSON object matching this schema:'' @ [newline]
     @ ''{'' @ [newline]
     @ ''  '' @ [dquote] @ ''isWorthToReport'' @ [dquote]
     @ '': boolean, // True if changes are significant based on criteria (or always true if no criteria), false otherwise.''
     @ [newline]
     @ ''  '' @ [dquote] @ ''reportedChanges'' @ [dquote]
     @ '': string  // The concise summary of changes. Provide this summary EVEN IF isWorthToReport is false.''
     @ [newline]
     @ ''}'' @ [newline]
     @ ''Do not include any other text, explanations, or markdown formatting outside the JSON object.''"

text \<open>
  \<^verbatim>\<open>ChangeSummarySchema\<close> is \<^verbatim>\<open>z.object({isWorthToReport: z.boolean(), reportedChanges:
  z.string()})\<close>: the value must be an object whose two members have these types; other
  members are dropped; no length is required of the string. On failure the result holds
  the validation library's message for the value, \<open>zodMessage object\<close>, whose wording
  is the library's own.
\<close>

definition ChangeSummarySchema_safeParse ::
    "(json \<Rightarrow> string) \<Rightarrow> json \<Rightarrow> string + ChangeSummaryResult" where
  "ChangeSummarySchema_safeParse zodMessage object =
     (case object of
        JObj members \<Rightarrow>
          (case (map_of members ''isWorthToReport'', map_of members ''reportedChanges'') of
             (Some (JBool b), Some (JStr s)) \<Rightarrow>
               Inr \<lparr>isWorthToReport = b, reportedChanges = s\<rparr>
           | _ \<Rightarrow> Inl (zodMessage object))
      | _ \<Rightarrow> Inl (zodMessage object))"

definition defaultErrorResult :: ChangeSummaryResult where
  "defaultErrorResult =
     \<lparr>isWorthToReport = False, reportedChanges = ''Error generating change summary.''\<rparr>"

definition defaultNoChangesResult :: ChangeSummaryResult where
  "defaultNoChangesResult =
     \<lparr>isWorthToReport = False, reportedChanges = ''No changes detected.''\<rparr>"

text \<open>
  The diff sent to the model is cut at 3000 characters, with a marker appended.
\<close>

definition truncateDiff :: "string \<Rightarrow> string" where
  "truncateDiff formattedDiff =
     (let maxDiffLength = 3000 in
      if length formattedDiff > maxDiffLength
      then take maxDiffLength formattedDiff @ [newline] @ ''... [diff truncated] ...''
      else formattedDiff)"

definition summaryRequest :: "config \<Rightarrow> Change list \<Rightarrow> ai_request" where
  "summaryRequest cfg actualChanges =
     (let formattedDiff = formatDiffForAI actualChanges;
          truncatedDiff = truncateDiff formattedDiff;
          customContext = openaiCustomPromptContext cfg
      in \<lparr>model = openaiModelName cfg,
          system_content = systemPrompt customContext,
          user_content = truncatedDiff,
          temperature = ''0.2'', mode = ''json''\<rparr>)"

text \<open>
  \<^verbatim>\<open>generateChangeSummary\<close>. The parameter is typed \<^verbatim>\<open>Change[]\<close>; a caller that passes
  \<^verbatim>\<open>null\<close> past the type checker is the input \<open>None\<close>, and \<^verbatim>\<open>changes.filter\<close> then
  raises a \<^verbatim>\<open>TypeError\<close> before the \<^verbatim>\<open>try\<close> block is entered. \<open>generateObject\<close> is
  the AI collaborator: it rejects with a value or resolves with the generated object.
  The second component of the result lists the collaborator calls made.
\<close>

definition generateChangeSummary ::
    "config \<Rightarrow> (json \<Rightarrow> string) \<Rightarrow> (ai_request \<Rightarrow> thrown + json) \<Rightarrow> Change list option
       \<Rightarrow> (thrown + ChangeSummaryResult) \<times> ai_request list" where
  "generateChangeSummary cfg zodMessage generateObject changes =
     (case changes of
        None \<Rightarrow> (Inl (TypeError ''Cannot read properties of null (reading 'filter')''), [])
      | Some changes \<Rightarrow>
          let actualChanges = filter (\<lambda>c. added c \<or> removed c) changes in
          if length actualChanges = 0 then (Inr defaultNoChangesResult, [])
          else
            let request = summaryRequest cfg actualChanges in
            (case generateObject request of
               Inl error \<Rightarrow> (Inr defaultErrorResult, [request])
             | Inr object \<Rightarrow>
                 (case ChangeSummarySchema_safeParse zodMessage object of
                    Inr data \<Rightarrow> (Inr data, [request])
                  | Inl error_message \<Rightarrow>
                      (Inr (defaultErrorResult\<lparr>reportedChanges :=
                         ''Error: AI response did not match expected format. Details: ''
                           @ error_message @ ''. '' @ reportedChanges defaultErrorResult\<rparr>),
                       [request]))))"

subsection \<open>notifier.ts: the lazily initialised bot and sendTelegramNotification\<close>

text \<open>
  What the notifier does to the outside: lines on the console, each a list of arguments
  (a string, or a caught value printed as it is), and calls of \<^verbatim>\<open>bot.sendMessage\<close> with
  the chat id, the text and the parse mode.
\<close>

datatype console_arg = Str string | Val thrown

datatype effect =
    Console_log "console_arg list"
  | Console_warn "console_arg list"
  | Console_error "console_arg list"
  | SendMessage string string string

text \<open>
  The messaging collaborator, the package \<^verbatim>\<open>node-telegram-bot-api\<close>: the constructor
  returns a bot for a token or throws (\<open>Some\<close> of the thrown value); \<^verbatim>\<open>sendMessage\<close>
  resolves (\<open>None\<close>) or rejects with a value.
\<close>

datatype TelegramBot = TelegramBot string

record telegram_api =
  new_TelegramBot :: "string \<Rightarrow> thrown option"
  sendMessage :: "TelegramBot \<Rightarrow> string \<Rightarrow> string \<Rightarrow> string \<Rightarrow> thrown option"

text \<open>
  The three module variables. Before the first call nothing is initialised. Afterwards
  the client is ready (\<open>botInstance\<close> is set), disabled (no bot and no error: the token
  or the chat id is missing) or failed (no bot, and the error the constructor threw); the
  flag keeps a later call from trying again.
\<close>

record notifier_state =
  botInstance :: "TelegramBot option"
  botInitializationError :: "thrown option"
  isBotInitialized :: bool

definition notifier_initial :: notifier_state where
  "notifier_initial =
     \<lparr>botInstance = None, botInitializationError = None, isBotInitialized = False\<rparr>"

text \<open>
  \<^verbatim>\<open>getBotInstance\<close>: the value returned, the variables afterwards, the console lines.
  A thrown value that is not an \<^verbatim>\<open>Error\<close> is wrapped in one.
\<close>

definition getBotInstance ::
    "config \<Rightarrow> telegram_api \<Rightarrow> notifier_state \<Rightarrow> TelegramBot option \<times> notifier_state \<times> effect list" where
  "getBotInstance cfg api st =
     (if \<not> isBotInitialized st then
        let st1 = st\<lparr>isBotInitialized := True\<rparr> in
        if telegramBotToken cfg \<noteq> [] \<and> telegramChatId cfg \<noteq> [] then
          (case new_TelegramBot api (telegramBotToken cfg) of
             None \<Rightarrow>
               (Some (TelegramBot (telegramBotToken cfg)),
                st1\<lparr>botInstance := Some (TelegramBot (telegramBotToken cfg))\<rparr>,
                [Console_log [Str ''Telegram bot initialized on first use.'']])
           | Some error \<Rightarrow>
               (None,
                st1\<lparr>botInitializationError :=
                       Some (case error of
                               Thrown True _ _ _ _ \<Rightarrow> error
                             | _ \<Rightarrow> new_Error (String error)),
                     botInstance := None\<rparr>,
                [Console_error [Str ''Failed to initialize Telegram bot:'', Val error]]))
        else
          (botInstance st1, st1,
           [Console_warn [Str ''Telegram bot token or chat ID not provided. Telegram notifications disabled.'']])
      else (botInstance st, st, []))"

text \<open>
  \<^verbatim>\<open>sendTelegramNotification\<close>. The handler of a failed send evaluates
  \<^verbatim>\<open>error.message || error\<close> on the caught value: reading \<^verbatim>\<open>message\<close> of \<^verbatim>\<open>undefined\<close>
  or \<^verbatim>\<open>null\<close> raises a \<^verbatim>\<open>TypeError\<close>, which leaves the function; of any other value
  it gives the message, or nothing, and then the value itself is printed.
\<close>

definition sendTelegramNotification ::
    "config \<Rightarrow> telegram_api \<Rightarrow> notifier_state \<Rightarrow> string
       \<Rightarrow> (thrown + unit) \<times> notifier_state \<times> effect list" where
  "sendTelegramNotification cfg api st message_text =
     (case getBotInstance cfg api st of (found, st1, init_effects) \<Rightarrow>
        (case found of
           None \<Rightarrow>
             let reason = (if botInitializationError st1 \<noteq> None
                           then ''bot failed to initialize''
                           else ''notifications are disabled'')
             in (Inr (), st1,
                 init_effects
                 @ [Console_log [Str (''Telegram '' @ reason @ ''. Skipping notification.'')],
                    Console_log [Str (''[Telegram Notification Skipped]:'' @ [newline]
                                       @ message_text)]]
                 @ (case botInitializationError st1 of
                      Some err \<Rightarrow>
                        [Console_error [Str ''Initialization error details:'', Val err]]
                    | None \<Rightarrow> []))
         | Some tbot \<Rightarrow>
             let sending = init_effects
                   @ [Console_log [Str (''Sending notification to Telegram chat ID: ''
                                         @ telegramChatId cfg)],
                      SendMessage (telegramChatId cfg) message_text ''MarkdownV2'']
             in (case sendMessage api tbot (telegramChatId cfg) message_text ''MarkdownV2'' of
                   None \<Rightarrow>
                     (Inr (), st1,
                      sending @ [Console_log [Str ''Successfully sent notification to Telegram.'']])
                 | Some error \<Rightarrow>
                     (case error of
                        Undefined \<Rightarrow>
                          (Inl (TypeError ''Cannot read properties of undefined (reading 'message')''),
                           st1, sending)
                      | Null \<Rightarrow>
                          (Inl (TypeError ''Cannot read properties of null (reading 'message')''),
                           st1, sending)
                      | Thrown _ msg _ _ _ \<Rightarrow>
                          (Inr (), st1,
                           sending
                           @ [Console_error [Str ''Error sending Telegram notification:'',
                                (case msg of
                                   Some m \<Rightarrow> if m \<noteq> [] then Str m else Val error
                                 | None \<Rightarrow> Val error)],
                              Console_error [Str (''[Failed Telegram Message]:'' @ [newline]
                                                   @ message_text)]])))))"

subsection \<open>storage.ts\<close>

text \<open>
  The file system the two functions work on is a tree: a path names a directory, a
  regular file with its content, or nothing. The root always is a directory. A call
  resolves its path from the root: an ancestor that does not exist gives \<^verbatim>\<open>ENOENT\<close>, one
  that is a regular file gives \<^verbatim>\<open>ENOTDIR\<close>. Besides, the system may refuse a call on a
  path for a reason the tree does not show (permissions, a read-only or full device, a
  hardware error); \<open>faults\<close> says which calls it refuses and with what. The errors are
  \<^verbatim>\<open>Error\<close> objects with a \<^verbatim>\<open>code\<close>, as Node's are.
\<close>

datatype node = Directory | File string

datatype fs_op = Access | Mkdir | ReadFile | WriteFile

datatype io_fault = EACCES | EPERM | EROFS | ENOSPC | EIO

record filesystem =
  nodes :: "path \<rightharpoonup> node"
  faults :: "fs_op \<Rightarrow> path \<Rightarrow> io_fault option"

definition node_at :: "filesystem \<Rightarrow> path \<Rightarrow> node option" where
  "node_at fs p = (if p = [] then Some Directory else nodes fs p)"

definition errno :: "io_fault \<Rightarrow> string" where
  "errno f = (case f of EACCES \<Rightarrow> ''EACCES'' | EPERM \<Rightarrow> ''EPERM'' | EROFS \<Rightarrow> ''EROFS''
                | ENOSPC \<Rightarrow> ''ENOSPC'' | EIO \<Rightarrow> ''EIO'')"

definition path_string :: "path \<Rightarrow> string" where
  "path_string p = (if p = [] then ''/'' else concat (map (\<lambda>name. CHR ''/'' # name) p))"

definition fs_error :: "string \<Rightarrow> path \<Rightarrow> thrown" where
  "fs_error code_name p =
     Thrown True (Some (code_name @ '': '' @ path_string p))
       (Some (''Error: '' @ code_name @ '': '' @ path_string p))
       (Some code_name) (''Error: '' @ code_name @ '': '' @ path_string p)"

text \<open>
  The ancestors of a path, the root first, and the walk along them: every one must be
  a directory.
\<close>

definition ancestors :: "path \<Rightarrow> path list" where
  "ancestors p = (if p = [] then [] else prefixes (butlast p))"

fun walk :: "filesystem \<Rightarrow> path list \<Rightarrow> string option" where
  "walk fs [] = None"
| "walk fs (q # qs) =
     (case node_at fs q of
        None \<Rightarrow> Some ''ENOENT''
      | Some Directory \<Rightarrow> walk fs qs
      | Some (File _) \<Rightarrow> Some ''ENOTDIR'')"

text \<open>
  What a call finds at its path: the fault, if the system refuses the call; the error of
  the walk; otherwise the node there, if any.
\<close>

definition resolve :: "filesystem \<Rightarrow> fs_op \<Rightarrow> path \<Rightarrow> thrown + node option" where
  "resolve fs op p =
     (case faults fs op p of
        Some f \<Rightarrow> Inl (fs_error (errno f) p)
      | None \<Rightarrow>
          (case walk fs (ancestors p) of
             Some code_name \<Rightarrow> Inl (fs_error code_name p)
           | None \<Rightarrow> Inr (node_at fs p)))"

text \<open>
  \<^verbatim>\<open>fs.access(dir)\<close> tests that the path exists. \<^verbatim>\<open>fs.readFile\<close> returns the content of
  a regular file. \<^verbatim>\<open>fs.writeFile\<close> creates or replaces a regular file in an existing
  directory.
\<close>

definition fs_access :: "filesystem \<Rightarrow> path \<Rightarrow> thrown + unit" where
  "fs_access fs p =
     (case resolve fs Access p of
        Inl error \<Rightarrow> Inl error
      | Inr None \<Rightarrow> Inl (fs_error ''ENOENT'' p)
      | Inr (Some _) \<Rightarrow> Inr ())"

definition fs_readFile :: "filesystem \<Rightarrow> path \<Rightarrow> thrown + string" where
  "fs_readFile fs p =
     (case resolve fs ReadFile p of
        Inl error \<Rightarrow> Inl error
      | Inr None \<Rightarrow> Inl (fs_error ''ENOENT'' p)
      | Inr (Some Directory) \<Rightarrow> Inl (fs_error ''EISDIR'' p)
      | Inr (Some (File data)) \<Rightarrow> Inr data)"

definition fs_writeFile :: "filesystem \<Rightarrow> path \<Rightarrow> string \<Rightarrow> thrown + filesystem" where
  "fs_writeFile fs p data =
     (case resolve fs WriteFile p of
        Inl error \<Rightarrow> Inl error
      | Inr (Some Directory) \<Rightarrow> Inl (fs_error ''EISDIR'' p)
      | Inr _ \<Rightarrow> Inr (fs\<lparr>nodes := (nodes fs)(p \<mapsto> File data)\<rparr>))"

text \<open>
  \<^verbatim>\<open>fs.mkdir(dir, { recursive: true })\<close> creates the directory and every missing ancestor,
  from the root down; a directory that exists is no error; a regular file in the way is
  \<^verbatim>\<open>ENOTDIR\<close>, or \<^verbatim>\<open>EEXIST\<close> when it stands at the path itself.
\<close>

fun mkdir_each :: "filesystem \<Rightarrow> path \<Rightarrow> path list \<Rightarrow> thrown + filesystem" where
  "mkdir_each fs target [] = Inr fs"
| "mkdir_each fs target (q # qs) =
     (case node_at fs q of
        None \<Rightarrow> mkdir_each (fs\<lparr>nodes := (nodes fs)(q \<mapsto> Directory)\<rparr>) target qs
      | Some Directory \<Rightarrow> mkdir_each fs target qs
      | Some (File _) \<Rightarrow>
          Inl (fs_error (if q = target then ''EEXIST'' else ''ENOTDIR'') target))"

definition fs_mkdir :: "filesystem \<Rightarrow> path \<Rightarrow> thrown + filesystem" where
  "fs_mkdir fs p =
     (case faults fs Mkdir p of
        Some f \<Rightarrow> Inl (fs_error (errno f) p)
      | None \<Rightarrow> mkdir_each fs p (prefixes p))"

text \<open>
  \<^verbatim>\<open>path.dirname\<close> of a resolved path: the path without its last component; the root is
  its own parent.
\<close>

definition path_dirname :: "path \<Rightarrow> path" where
  "path_dirname p = butlast p"

text \<open>
  \<^verbatim>\<open>JSON.stringify(state, null, 2)\<close> and \<^verbatim>\<open>JSON.parse\<close> are built into the language;
  they are parameters here. \<^verbatim>\<open>JSON.parse\<close> raises a \<^verbatim>\<open>SyntaxError\<close> on malformed text.
\<close>

record json_api =
  JSON_stringify :: "json \<Rightarrow> string"
  JSON_parse :: "string \<Rightarrow> thrown + json"

text \<open>
  \<^verbatim>\<open>error.code === 'ENOENT'\<close> in a \<^verbatim>\<open>catch (error: any)\<close> clause: reading a property of
  \<^verbatim>\<open>undefined\<close> or \<^verbatim>\<open>null\<close> raises.
\<close>

definition error_code_is :: "thrown \<Rightarrow> string \<Rightarrow> thrown + bool" where
  "error_code_is error code_name =
     (case error of
        Undefined \<Rightarrow> Inl (TypeError ''Cannot read properties of undefined (reading 'code')'')
      | Null \<Rightarrow> Inl (TypeError ''Cannot read properties of null (reading 'code')'')
      | Thrown _ _ _ c _ \<Rightarrow> Inr (c = Some code_name))"

definition ensureStateDirectoryExists :: "config \<Rightarrow> filesystem \<Rightarrow> (thrown + unit) \<times> filesystem" where
  "ensureStateDirectoryExists cfg fs =
     (let dir = path_dirname (stateFilePath cfg) in
      case fs_access fs dir of
        Inr _ \<Rightarrow> (Inr (), fs)
      | Inl error \<Rightarrow>
          (case error_code_is error ''ENOENT'' of
             Inl type_error \<Rightarrow> (Inl type_error, fs)
           | Inr True \<Rightarrow>
               (case fs_mkdir fs dir of
                  Inl mkdir_error \<Rightarrow> (Inl mkdir_error, fs)
                | Inr fs1 \<Rightarrow> (Inr (), fs1))
           | Inr False \<Rightarrow> (Inl error, fs)))"

text \<open>
  The \<^verbatim>\<open>catch\<close> clause of \<^verbatim>\<open>readLastState\<close>: a missing file is the first run and gives
  \<^verbatim>\<open>null\<close>; any other error is thrown again. The clause covers the directory check, the
  read and the parse.
\<close>

definition readLastState_catch :: "thrown \<Rightarrow> thrown + json" where
  "readLastState_catch error =
     (case error_code_is error ''ENOENT'' of
        Inl type_error \<Rightarrow> Inl type_error
      | Inr True \<Rightarrow> Inr JNull
      | Inr False \<Rightarrow> Inl error)"

definition readLastState :: "config \<Rightarrow> json_api \<Rightarrow> filesystem \<Rightarrow> (thrown + json) \<times> filesystem" where
  "readLastState cfg JSON fs =
     (case ensureStateDirectoryExists cfg fs of
        (Inl error, fs1) \<Rightarrow> (readLastState_catch error, fs1)
      | (Inr _, fs1) \<Rightarrow>
          (case fs_readFile fs1 (stateFilePath cfg) of
             Inl error \<Rightarrow> (readLastState_catch error, fs1)
           | Inr data \<Rightarrow>
               (case JSON_parse JSON data of
                  Inl error \<Rightarrow> (readLastState_catch error, fs1)
                | Inr state \<Rightarrow> (Inr state, fs1))))"

definition writeState :: "config \<Rightarrow> json_api \<Rightarrow> json \<Rightarrow> filesystem \<Rightarrow> (thrown + unit) \<times> filesystem" where
  "writeState cfg JSON state fs =
     (case ensureStateDirectoryExists cfg fs of
        (Inl error, fs1) \<Rightarrow> (Inl error, fs1)
      | (Inr _, fs1) \<Rightarrow>
          (let data = JSON_stringify JSON state in
           case fs_writeFile fs1 (stateFilePath cfg) data of
             Inl error \<Rightarrow> (Inl error, fs1)
           | Inr fs2 \<Rightarrow> (Inr (), fs2)))"

subsection \<open>comparer.ts\<close>

text \<open>
  Modelled from the spec: the canonical serializer, the package
  \<^verbatim>\<open>fast-json-stable-stringify\<close>, is not part of the sources. The specification describes
  it as a serialization with deterministic key ordering, object keys sorted, independent
  of insertion order: an object's members are printed in the order of their keys, an
  array's items in their own order, with no white space. A string is printed between
  double quotes with the quote and the backslash escaped.
\<close>

definition json_quote :: "string \<Rightarrow> string" where
  "json_quote s =
     [dquote] @ concat (map (\<lambda>c. if c = dquote \<or> c = backslash then [backslash, c] else [c]) s)
       @ [dquote]"

fun join :: "string \<Rightarrow> string list \<Rightarrow> string" where
  "join sep [] = []"
| "join sep [x] = x"
| "join sep (x # xs) = x @ sep @ join sep xs"

fun stringify :: "json \<Rightarrow> string" where
  "stringify JNull = ''null''"
| "stringify (JBool b) = (if b then ''true'' else ''false'')"
| "stringify (JNum n) = n"
| "stringify (JStr s) = json_quote s"
| "stringify (JArr items) = ''['' @ join '','' (map stringify items) @ '']''"
| "stringify (JObj members) =
     ''{'' @ join '',''
        (map (\<lambda>(k, text). json_quote k @ '':'' @ text)
          (sort_key fst (map (\<lambda>(k, v). (k, stringify v)) members))) @ ''}''"

text \<open>
  \<^verbatim>\<open>compareJson\<close>. \<open>diffJson\<close> is the structural diff of the \<^verbatim>\<open>diff\<close> package, a
  parameter: it returns the parts of the diff, each flagged added, removed or neither.
  The result \<open>None\<close> is \<^verbatim>\<open>null\<close>.
\<close>

definition compareJson ::
    "(json \<Rightarrow> json \<Rightarrow> Change list) \<Rightarrow> json \<Rightarrow> json \<Rightarrow> Change list option" where
  "compareJson diffJson oldState newState =
     (let oldString = stringify oldState;
          newString = stringify newState
      in if oldString = newString then None
         else
           let differences = diffJson oldState newState;
               actualChanges = filter (\<lambda>part. added part \<or> removed part) differences
           in if length actualChanges = 0 then None else Some actualChanges)"




subsection \<open>index.ts\<close>

text \<open>
  The calls \<^verbatim>\<open>checkJsonUpdates\<close> awaits, as an observer of the collaborators sees them:
  the fetch, the read of the stored state, the summary, the notification and the write.
  \<^verbatim>\<open>compareJson\<close> and \<^verbatim>\<open>escapeMarkdownV2\<close> are pure and run in between.
\<close>

datatype call =
    FetchJsonData
  | ReadLastState
  | GenerateChangeSummary "Change list"
  | SendTelegramNotification string
  | WriteState json

text \<open>
  What each awaited call settles with in the cycle at hand: a rejection with a thrown
  value, or a result. The fetch and the read take no argument; the others are functions
  of theirs. \<open>diffJson_of\<close> is the diff package's function that \<^verbatim>\<open>compareJson\<close> uses.
\<close>

record collaborators =
  await_fetchJsonData :: "thrown + json"
  await_readLastState :: "thrown + json"
  diffJson_of :: "json \<Rightarrow> json \<Rightarrow> Change list"
  await_generateChangeSummary :: "Change list \<Rightarrow> thrown + ChangeSummaryResult"
  await_sendTelegramNotification :: "string \<Rightarrow> thrown + unit"
  await_writeState :: "json \<Rightarrow> thrown + unit"

text \<open>
  Inside a \<^verbatim>\<open>try\<close> block, \<open>await\<close> records the call, and a rejection abandons the rest
  of the block: \<open>andThen\<close> runs the continuation only after a result.
\<close>

definition await :: "call \<Rightarrow> thrown + 'a \<Rightarrow> (thrown + 'a) \<times> call list" where
  "await c outcome = (outcome, [c])"

definition andThen ::
    "(thrown + 'a) \<times> call list \<Rightarrow> ('a \<Rightarrow> (thrown + 'b) \<times> call list) \<Rightarrow> (thrown + 'b) \<times> call list" where
  "andThen first rest =
     (case first of
        (Inl error, calls) \<Rightarrow> (Inl error, calls)
      | (Inr v, calls) \<Rightarrow> (case rest v of (outcome, calls') \<Rightarrow> (outcome, calls @ calls')))"

text \<open>
  \<^verbatim>\<open>typeof v === 'object'\<close> holds of objects, arrays and \<^verbatim>\<open>null\<close>.
\<close>

definition typeof_object :: "json \<Rightarrow> bool" where
  "typeof_object v = (case v of JArr _ \<Rightarrow> True | JObj _ \<Rightarrow> True | JNull \<Rightarrow> True | _ \<Rightarrow> False)"

text \<open>
  The \<^verbatim>\<open>try\<close> block of \<^verbatim>\<open>checkJsonUpdates\<close>, steps 1 to 6 of the source. Its result is
  \<open>Inr ()\<close> when the block ran to its end and \<open>Inl error\<close> when a call rejected or the
  fetched value is not an object; with it comes the list of calls made, in order.
\<close>

definition try_block :: "collaborators \<Rightarrow> (thrown + unit) \<times> call list" where
  "try_block env =
     andThen (await FetchJsonData (await_fetchJsonData env)) (\<lambda>currentState.
       if \<not> typeof_object currentState \<or> currentState = JNull
       then (Inl (new_Error ''Fetched data is not a valid JSON object.''), [])
       else
         andThen (await ReadLastState (await_readLastState env)) (\<lambda>lastState.
           if lastState = JNull
           then await (WriteState currentState) (await_writeState env currentState)
           else
             let changes = compareJson (diffJson_of env) lastState currentState;
                 actualChanges =
                   (case changes of
                      Some cs \<Rightarrow> filter (\<lambda>c. added c \<or> removed c) cs
                    | None \<Rightarrow> [])
             in if length actualChanges > 0
                then
                  andThen (await (GenerateChangeSummary actualChanges)
                             (await_generateChangeSummary env actualChanges)) (\<lambda>aiResult.
                    andThen
                      (if isWorthToReport aiResult
                       then
                         let escapedSummary = escapeMarkdownV2 (reportedChanges aiResult);
                             notificationMessage =
                               ''*JSON Update Detected*'' @ [newline, newline] @ escapedSummary
                         in await (SendTelegramNotification notificationMessage)
                              (await_sendTelegramNotification env notificationMessage)
                       else (Inr (), []))
                      (\<lambda>_. await (WriteState currentState) (await_writeState env currentState)))
                else (Inr (), [])))"

text \<open>
  The \<^verbatim>\<open>catch\<close> clause: the error text is \<^verbatim>\<open>String(error instanceof Error ? error.stack
  || error.message : error)\<close>, its first 500 characters are escaped and sent in a code
  block. A failure of that notification is caught and logged.
\<close>

definition errorMessage_of :: "thrown \<Rightarrow> string" where
  "errorMessage_of error =
     (case error of
        Thrown True msg stk _ _ \<Rightarrow>
          (let message_text = (case msg of Some m \<Rightarrow> m | None \<Rightarrow> ''undefined'') in
           case stk of
             Some s \<Rightarrow> if s \<noteq> [] then s else message_text
           | None \<Rightarrow> message_text)
      | _ \<Rightarrow> String error)"

definition error_notification :: "thrown \<Rightarrow> string" where
  "error_notification error =
     (let errorMessage = errorMessage_of error;
          escapedError = escapeMarkdownV2 (take 500 errorMessage)
      in ''*Error checking JSON updates*:'' @ [newline] @ [backtick, backtick, backtick]
           @ [newline] @ escapedError
           @ (if length errorMessage > 500 then ''...[truncated]'' else [])
           @ [newline] @ [backtick, backtick, backtick])"

definition catch_block :: "collaborators \<Rightarrow> thrown \<Rightarrow> call list" where
  "catch_block env error =
     (case await (SendTelegramNotification (error_notification error))
             (await_sendTelegramNotification env (error_notification error)) of
        (Inl notifyError, calls) \<Rightarrow> calls
      | (Inr _, calls) \<Rightarrow> calls)"

text \<open>
  The run guard, the module variable \<^verbatim>\<open>isJobRunning\<close>. \<open>enter\<close> is the synchronous
  head of \<^verbatim>\<open>checkJsonUpdates\<close> (the test of the guard, the early return, the assignment
  of \<^verbatim>\<open>true\<close>); \<open>finally_block\<close> is its \<^verbatim>\<open>finally\<close> clause. The early return stands
  before the \<^verbatim>\<open>try\<close> statement, so a skipped trigger does not run the \<^verbatim>\<open>finally\<close> clause.
\<close>

record orchestrator =
  isJobRunning :: bool

definition enter :: "orchestrator \<Rightarrow> bool \<times> orchestrator" where
  "enter st = (if isJobRunning st then (False, st) else (True, st\<lparr>isJobRunning := True\<rparr>))"

definition finally_block :: "orchestrator \<Rightarrow> orchestrator" where
  "finally_block st = st\<lparr>isJobRunning := False\<rparr>"

text \<open>
  One invocation of \<^verbatim>\<open>checkJsonUpdates\<close>, run to its end: the guard after it and the
  calls it made.
\<close>

definition checkJsonUpdates :: "collaborators \<Rightarrow> orchestrator \<Rightarrow> orchestrator \<times> call list" where
  "checkJsonUpdates env st =
     (case enter st of
        (False, st0) \<Rightarrow> (st0, [])
      | (True, st1) \<Rightarrow>
          (case try_block env of
             (Inr _, calls) \<Rightarrow> (finally_block st1, calls)
           | (Inl error, calls) \<Rightarrow> (finally_block st1, calls @ catch_block env error)))"

text \<open>
  Invocations overlap only at their \<^verbatim>\<open>await\<close>s: the process has one thread, and the code
  between two suspension points runs without interruption. What the scheduler can
  interleave is therefore a sequence of two kinds of events: a trigger, which runs the
  head of a new invocation, and the settling of the cycle in flight, which runs its
  \<^verbatim>\<open>finally\<close> clause. \<open>in_flight\<close> counts the invocations that passed the guard and
  have not reached their \<^verbatim>\<open>finally\<close> clause: the cycles executing at that instant.
\<close>

datatype event = Trigger | Settle

record event_loop =
  guard :: orchestrator
  in_flight :: nat

fun step :: "event_loop \<Rightarrow> event \<Rightarrow> event_loop" where
  "step s Trigger =
     (case enter (guard s) of
        (True, g) \<Rightarrow> s\<lparr>guard := g, in_flight := in_flight s + 1\<rparr>
      | (False, g) \<Rightarrow> s\<lparr>guard := g\<rparr>)"
| "step s Settle =
     (if in_flight s = 0 then s
      else s\<lparr>guard := finally_block (guard s), in_flight := in_flight s - 1\<rparr>)"

definition at_start :: event_loop where
  "at_start = \<lparr>guard = \<lparr>isJobRunning = False\<rparr>, in_flight = 0\<rparr>"

definition run :: "event list \<Rightarrow> event_loop" where
  "run events = foldl step at_start events"

fun is_WriteState :: "call \<Rightarrow> bool" where
  "is_WriteState (WriteState _) = True"
| "is_WriteState _ = False"


subsection \<open>Example inputs\<close>

text \<open>
  Concrete inputs, most of them taken from the test suites: a configuration, lists of
  changes, behaviours of the collaborators, documents and a file system.
\<close>

definition example_config :: config where
  "example_config =
     \<lparr>jsonUrl = ''http://test.com/valid'', openaiModelName = ''gpt-4o-mini'',
      openaiCustomPromptContext = [], telegramBotToken = ''MOCK_TOKEN'',
      telegramChatId = ''MOCK_CHAT_ID'',
      stateFilePath = [''tmp'', ''test-lastState.json'']\<rparr>"

definition sampleChangesBasic :: "Change list" where
  "sampleChangesBasic =
     [\<lparr>value_str = ''old name'', added = False, removed = True\<rparr>,
      \<lparr>value_str = ''new name'', added = True, removed = False\<rparr>,
      \<lparr>value_str = ''value'', added = False, removed = False\<rparr>]"

definition noEffectiveChanges :: "Change list" where
  "noEffectiveChanges = [\<lparr>value_str = ''value'', added = False, removed = False\<rparr>]"

definition zod_required :: "json \<Rightarrow> string" where
  "zod_required object = ''Required''"

definition ai_service_failed :: "ai_request \<Rightarrow> thrown + json" where
  "ai_service_failed request = Inl (new_Error ''AI service failed'')"

definition ai_malformed :: "ai_request \<Rightarrow> thrown + json" where
  "ai_malformed request =
     Inr (JObj [(''reportedChanges'', JStr ''Summary without evaluation.'')])"

definition ai_empty_summary :: "ai_request \<Rightarrow> thrown + json" where
  "ai_empty_summary request =
     Inr (JObj [(''isWorthToReport'', JBool True), (''reportedChanges'', JStr [])])"

definition ai_complex_changes :: "ai_request \<Rightarrow> thrown + json" where
  "ai_complex_changes request =
     Inr (JObj [(''isWorthToReport'', JBool True), (''reportedChanges'', JStr ''Complex changes.'')])"

definition telegram_send_rejects :: "thrown \<Rightarrow> telegram_api" where
  "telegram_send_rejects reason =
     \<lparr>new_TelegramBot = (\<lambda>token. None),
      sendMessage = (\<lambda>tbot chat text parse_mode. Some reason)\<rparr>"

definition telegram_init_throws :: "thrown \<Rightarrow> telegram_api" where
  "telegram_init_throws reason =
     \<lparr>new_TelegramBot = (\<lambda>token. Some reason),
      sendMessage = (\<lambda>tbot chat text parse_mode. None)\<rparr>"


definition empty_disk :: filesystem where
  "empty_disk = \<lparr>nodes = Map.empty, faults = (\<lambda>op p. None)\<rparr>"


definition state_a1 :: json where
  "state_a1 = JObj [(''a'', JNum ''1'')]"

definition text_a1 :: string where
  "text_a1 = ''{'' @ [newline] @ ''  '' @ [dquote] @ ''a'' @ [dquote] @ '': 1'' @ [newline] @ ''}''"

text \<open>
  \<^verbatim>\<open>{"a": 1e400}\<close> parses to an object whose member is \<^verbatim>\<open>Infinity\<close>, which
  \<^verbatim>\<open>JSON.stringify\<close> prints as \<^verbatim>\<open>null\<close>.
\<close>

definition state_a_infinity :: json where
  "state_a_infinity = JObj [(''a'', JNum ''Infinity'')]"

definition state_a_null :: json where
  "state_a_null = JObj [(''a'', JNull)]"

definition text_a_null :: string where
  "text_a_null = ''{'' @ [newline] @ ''  '' @ [dquote] @ ''a'' @ [dquote] @ '': null'' @ [newline] @ ''}''"

text \<open>
  \<^verbatim>\<open>JSON.stringify(state, null, 2)\<close> and \<^verbatim>\<open>JSON.parse\<close> on the documents above.
\<close>

definition json_table :: json_api where
  "json_table =
     \<lparr>JSON_stringify = (\<lambda>state. if state = state_a1 then text_a1
                              else if state = state_a_infinity \<or> state = state_a_null then text_a_null
                              else ''null''),
      JSON_parse = (\<lambda>data. if data = text_a1 then Inr state_a1
                             else if data = text_a_null then Inr state_a_null
                             else if data = ''null'' then Inr JNull
                             else Inl (Thrown True (Some ''Unexpected token'')
                                        (Some ''SyntaxError: Unexpected token'') None
                                        ''SyntaxError: Unexpected token''))\<rparr>"

definition disk_written :: filesystem where
  "disk_written =
     \<lparr>nodes = [[''tmp''] \<mapsto> Directory, [''tmp'', ''test-lastState.json''] \<mapsto> File text_a1],
      faults = (\<lambda>op p. None)\<rparr>"

definition disk_written_infinity :: filesystem where
  "disk_written_infinity =
     \<lparr>nodes = [[''tmp''] \<mapsto> Directory, [''tmp'', ''test-lastState.json''] \<mapsto> File text_a_null],
      faults = (\<lambda>op p. None)\<rparr>"

definition whole_document_diff :: "json \<Rightarrow> json \<Rightarrow> Change list" where
  "whole_document_diff oldState newState =
     [\<lparr>value_str = stringify oldState, added = False, removed = True\<rparr>,
      \<lparr>value_str = stringify newState, added = True, removed = False\<rparr>]"




definition state_a2 :: json where
  "state_a2 = JObj [(''a'', JNum ''2'')]"

definition verdict_collaborators :: "bool \<Rightarrow> collaborators" where
  "verdict_collaborators worth =
     \<lparr>await_fetchJsonData = Inr state_a2,
      await_readLastState = Inr state_a1,
      diffJson_of = whole_document_diff,
      await_generateChangeSummary =
        (\<lambda>changes. Inr \<lparr>isWorthToReport = worth, reportedChanges = ''a changed from 1 to 2.''\<rparr>),
      await_sendTelegramNotification = (\<lambda>text. Inr ()),
      await_writeState = (\<lambda>state. Inr ())\<rparr>"

definition fetch_fails :: collaborators where
  "fetch_fails = (verdict_collaborators True)\<lparr>await_fetchJsonData := Inl (new_Error ''fetch failed'')\<rparr>"

definition unchanged_collaborators :: collaborators where
  "unchanged_collaborators = (verdict_collaborators True)\<lparr>await_fetchJsonData := Inr state_a1\<rparr>"

definition first_run_collaborators :: collaborators where
  "first_run_collaborators = (verdict_collaborators True)\<lparr>await_readLastState := Inr JNull\<rparr>"

definition idle :: orchestrator where
  "idle = \<lparr>isJobRunning = False\<rparr>"

definition running :: orchestrator where
  "running = \<lparr>isJobRunning = True\<rparr>"

section \<open>Properties\<close>

subsection \<open>escapeMarkdownV2\<close>

lemma reserved_not_backslash: "reserved c \<Longrightarrow> c \<noteq> backslash"
  by (auto simp: reserved_def backslash_def)

lemma backslash_not_reserved [simp]: "\<not> reserved backslash"
  by (simp add: reserved_def backslash_def)

lemma replace_scan_idem: "replace_scan p (replace_scan p s) = replace_scan p s"
  by (induction s arbitrary: p) (auto simp: reserved_not_backslash)

lemma replace_scan_positional:
  "replace_scan p s =
     concat (map (\<lambda>i. if reserved (s ! i) \<and> \<not> (if i = 0 then p else s ! (i - 1) = backslash)
                         then [backslash, s ! i] else [s ! i]) [0..<length s])"
proof (induction s arbitrary: p)
  case Nil
  then show ?case by simp
next
  case (Cons c cs)
  have shift: "[0..<length (c # cs)] = 0 # map Suc [0..<length cs]"
    by (simp add: upt_conv_Cons map_Suc_upt del: upt_Suc)
  show ?case
    unfolding shift
    apply (simp add: Cons.IH [of "c = backslash"] comp_def del: upt_Suc)
    apply (intro conjI impI arg_cong [where f = concat] map_cong refl)
    apply (auto simp: nth_Cons split: nat.splits)
    done
qed

text \<open>
  C7, as the code has it. The output is the input read position by position: a reserved
  character that is not immediately preceded by a backslash in the input (any backslash,
  escaped or not) is prefixed with one backslash; every other character, and every
  reserved character that directly follows a backslash, is copied unchanged.
\<close>

theorem escapeMarkdownV2_positional:
  "escapeMarkdownV2 s =
     concat (map (\<lambda>i. if reserved (s ! i) \<and> \<not> (0 < i \<and> s ! (i - 1) = backslash)
                         then [backslash, s ! i] else [s ! i]) [0..<length s])"
  unfolding escapeMarkdownV2_def replace_scan_positional [of False s]
  by (intro arg_cong [where f = concat] map_cong refl) auto

text \<open>
  C7, as the specification states it, fails on the input of two backslashes and a dot.
  The dot follows an escaped backslash, so the stated rule escapes it (three backslashes
  and the dot); the code sees a backslash before the dot and returns the input unchanged.
\<close>

theorem escapeMarkdownV2_unescaped_backslash_counterexample:
  "escapeMarkdownV2 [backslash, backslash, CHR ''.''] = [backslash, backslash, CHR ''.''] \<and>
   escape_as_specified [backslash, backslash, CHR ''.'']
     = [backslash, backslash, backslash, CHR ''.''] \<and>
   escapeMarkdownV2 [backslash, backslash, CHR ''.'']
     \<noteq> escape_as_specified [backslash, backslash, CHR ''.'']"
  by (simp add: escapeMarkdownV2_def escape_as_specified_def backslashes_before_def
      reserved_def backslash_def upt_rec numeral_nat)

text \<open>
  The stated rule and the code differ only where two backslashes stand side by side: on
  every other input they escape the same characters.
\<close>

lemma backslashes_before_no_double:
  assumes nd: "\<forall>j. Suc j < length s \<longrightarrow> \<not> (s ! j = backslash \<and> s ! Suc j = backslash)"
    and i: "i < length s"
  shows "odd (backslashes_before s i) \<longleftrightarrow> (0 < i \<and> s ! (i - 1) = backslash)"
proof (cases i)
  case 0
  then show ?thesis by (simp add: backslashes_before_def)
next
  case (Suc j)
  with i have j: "j < length s" by simp
  have r: "rev (take (Suc j) s) = s ! j # rev (take j s)"
    using j by (simp add: take_Suc_conv_app_nth)
  show ?thesis
  proof (cases "s ! j = backslash")
    case False
    with Suc r show ?thesis by (simp add: backslashes_before_def)
  next
    case True
    have "takeWhile (\<lambda>c. c = backslash) (rev (take j s)) = []"
    proof (cases j)
      case 0
      then show ?thesis by simp
    next
      case (Suc k)
      with j have k: "k < length s" by simp
      from nd Suc i \<open>i = Suc j\<close> True have "s ! k \<noteq> backslash"
        by auto
      moreover have "rev (take (Suc k) s) = s ! k # rev (take k s)"
        using k by (simp add: take_Suc_conv_app_nth)
      ultimately show ?thesis using Suc by simp
    qed
    with Suc r True show ?thesis by (simp add: backslashes_before_def)
  qed
qed

lemma escapeMarkdownV2_as_specified:
  assumes "\<forall>j. Suc j < length s \<longrightarrow> \<not> (s ! j = backslash \<and> s ! Suc j = backslash)"
  shows "escapeMarkdownV2 s = escape_as_specified s"
  unfolding escapeMarkdownV2_def escape_as_specified_def replace_scan_positional [of False s]
  apply (intro arg_cong [where f = concat] map_cong refl)
  using backslashes_before_no_double [OF assms]
  apply auto
  done

text \<open>
  C10. Escaping is idempotent: after one pass every reserved character directly follows
  a backslash, so a second pass changes nothing.
\<close>

theorem escapeMarkdownV2_idempotent:
  "escapeMarkdownV2 (escapeMarkdownV2 s) = escapeMarkdownV2 s"
  by (simp add: escapeMarkdownV2_def replace_scan_idem)

subsection \<open>generateChangeSummary\<close>

text \<open>
  C4. For every list of changes, every configuration and every behaviour of the AI
  collaborator, \<open>generateChangeSummary\<close> returns a result, it does not throw. When there
  is something to summarise and the collaborator call rejects (with any value \<open>e\<close>),
  the result is the default error result. When the collaborator resolves with an object
  that fails the schema, the verdict is false and the text carries the validation
  message \<open>detail\<close> between a fixed prefix and the default error text. In both cases the
  collaborator was called once.
\<close>

theorem generateChangeSummary_fails_closed:
  "(\<exists>r. fst (generateChangeSummary cfg zodMessage generateObject (Some changes)) = Inr r) \<and>
   (filter (\<lambda>c. added c \<or> removed c) changes \<noteq> [] \<longrightarrow>
      generateObject (summaryRequest cfg (filter (\<lambda>c. added c \<or> removed c) changes)) = Inl e \<longrightarrow>
      generateChangeSummary cfg zodMessage generateObject (Some changes)
        = (Inr \<lparr>isWorthToReport = False, reportedChanges = ''Error generating change summary.''\<rparr>,
           [summaryRequest cfg (filter (\<lambda>c. added c \<or> removed c) changes)])) \<and>
   (filter (\<lambda>c. added c \<or> removed c) changes \<noteq> [] \<longrightarrow>
      generateObject (summaryRequest cfg (filter (\<lambda>c. added c \<or> removed c) changes)) = Inr object \<longrightarrow>
      ChangeSummarySchema_safeParse zodMessage object = Inl detail \<longrightarrow>
      generateChangeSummary cfg zodMessage generateObject (Some changes)
        = (Inr \<lparr>isWorthToReport = False,
                reportedChanges = ''Error: AI response did not match expected format. Details: ''
                  @ detail @ ''. Error generating change summary.''\<rparr>,
           [summaryRequest cfg (filter (\<lambda>c. added c \<or> removed c) changes)]))"
  by (auto simp: generateChangeSummary_def Let_def defaultErrorResult_def
      split: sum.splits)

lemma sample_actual:
  "filter (\<lambda>c. added c \<or> removed c) sampleChangesBasic
     = [\<lparr>value_str = ''old name'', added = False, removed = True\<rparr>,
        \<lparr>value_str = ''new name'', added = True, removed = False\<rparr>]"
  by (simp add: sampleChangesBasic_def)

theorem generateChangeSummary_fails_closed_witness:
  "generateChangeSummary example_config zod_required ai_service_failed (Some sampleChangesBasic)
     = (Inr \<lparr>isWorthToReport = False, reportedChanges = ''Error generating change summary.''\<rparr>,
        [summaryRequest example_config (filter (\<lambda>c. added c \<or> removed c) sampleChangesBasic)]) \<and>
   generateChangeSummary example_config zod_required ai_malformed (Some sampleChangesBasic)
     = (Inr \<lparr>isWorthToReport = False,
             reportedChanges = ''Error: AI response did not match expected format. Details: ''
               @ ''Required'' @ ''. Error generating change summary.''\<rparr>,
        [summaryRequest example_config (filter (\<lambda>c. added c \<or> removed c) sampleChangesBasic)])"
proof -
  have ne: "filter (\<lambda>c. added c \<or> removed c) sampleChangesBasic \<noteq> []"
    by (simp add: sample_actual)
  have bad: "ChangeSummarySchema_safeParse zod_required
      (JObj [(''reportedChanges'', JStr ''Summary without evaluation.'')]) = Inl ''Required''"
    by (simp add: ChangeSummarySchema_safeParse_def zod_required_def)
  from generateChangeSummary_fails_closed
    [of example_config zod_required ai_service_failed sampleChangesBasic
      "new_Error ''AI service failed''"] ne
  have one: "generateChangeSummary example_config zod_required ai_service_failed (Some sampleChangesBasic)
     = (Inr \<lparr>isWorthToReport = False, reportedChanges = ''Error generating change summary.''\<rparr>,
        [summaryRequest example_config (filter (\<lambda>c. added c \<or> removed c) sampleChangesBasic)])"
    by (simp add: ai_service_failed_def)
  from generateChangeSummary_fails_closed
    [of example_config zod_required ai_malformed sampleChangesBasic _
      "JObj [(''reportedChanges'', JStr ''Summary without evaluation.'')]" "''Required''"] ne bad
  have two: "generateChangeSummary example_config zod_required ai_malformed (Some sampleChangesBasic)
     = (Inr \<lparr>isWorthToReport = False,
             reportedChanges = ''Error: AI response did not match expected format. Details: ''
               @ ''Required'' @ ''. Error generating change summary.''\<rparr>,
        [summaryRequest example_config (filter (\<lambda>c. added c \<or> removed c) sampleChangesBasic)])"
    by (simp add: ai_malformed_def)
  from one two show ?thesis by blast
qed


text \<open>
  C5, as the code has it. A list of changes none of which is added or removed (the empty
  list included) yields the no-changes result, and the AI collaborator is not called. An
  absent list is not an input of the declared type; handed one, the function raises
  before it reaches the collaborator.
\<close>

theorem generateChangeSummary_no_changes:
  "(list_all (\<lambda>c. \<not> added c \<and> \<not> removed c) changes \<longrightarrow>
      generateChangeSummary cfg zodMessage generateObject (Some changes)
        = (Inr \<lparr>isWorthToReport = False, reportedChanges = ''No changes detected.''\<rparr>, [])) \<and>
   (\<exists>e. generateChangeSummary cfg zodMessage generateObject None = (Inl e, []))"
proof -
  have "list_all (\<lambda>c. \<not> added c \<and> \<not> removed c) changes
      \<Longrightarrow> filter (\<lambda>c. added c \<or> removed c) changes = []"
    by (induction changes) auto
  then show ?thesis
    by (simp add: generateChangeSummary_def defaultNoChangesResult_def)
qed

theorem generateChangeSummary_no_changes_witness:
  "list_all (\<lambda>c. \<not> added c \<and> \<not> removed c) noEffectiveChanges \<and>
   generateChangeSummary example_config zod_required ai_service_failed (Some noEffectiveChanges)
     = (Inr \<lparr>isWorthToReport = False, reportedChanges = ''No changes detected.''\<rparr>, []) \<and>
   generateChangeSummary example_config zod_required ai_service_failed (Some [])
     = (Inr \<lparr>isWorthToReport = False, reportedChanges = ''No changes detected.''\<rparr>, [])"
proof -
  have a: "list_all (\<lambda>c. \<not> added c \<and> \<not> removed c) noEffectiveChanges"
    by (simp add: noEffectiveChanges_def)
  have b: "list_all (\<lambda>c. \<not> added c \<and> \<not> removed c) ([] :: Change list)"
    by simp
  from a b
    generateChangeSummary_no_changes
      [of noEffectiveChanges example_config zod_required ai_service_failed]
    generateChangeSummary_no_changes
      [of "[]" example_config zod_required ai_service_failed]
  show ?thesis by blast
qed

text \<open>
  C5, as the specification states it, fails for the absent ChangeSet: the call raises a
  \<^verbatim>\<open>TypeError\<close> instead of returning the no-changes result.
\<close>

theorem generateChangeSummary_absent_counterexample:
  "generateChangeSummary example_config zod_required ai_service_failed None
     = (Inl (TypeError ''Cannot read properties of null (reading 'filter')''), []) \<and>
   generateChangeSummary example_config zod_required ai_service_failed None
     \<noteq> (Inr \<lparr>isWorthToReport = False, reportedChanges = ''No changes detected.''\<rparr>, [])"
  by (simp add: generateChangeSummary_def)

lemma safeParse_Inr:
  "ChangeSummarySchema_safeParse zodMessage object = Inr r \<Longrightarrow>
     \<exists>members b. object = JObj members \<and>
       map_of members ''isWorthToReport'' = Some (JBool b) \<and>
       map_of members ''reportedChanges'' = Some (JStr (reportedChanges r)) \<and>
       isWorthToReport r = b"
  unfolding ChangeSummarySchema_safeParse_def
  by (cases object; simp split: option.splits json.splits) auto

lemma safeParse_valid:
  "map_of members ''isWorthToReport'' = Some (JBool b) \<Longrightarrow>
   map_of members ''reportedChanges'' = Some (JStr s) \<Longrightarrow>
   ChangeSummarySchema_safeParse zodMessage (JObj members)
     = Inr \<lparr>isWorthToReport = b, reportedChanges = s\<rparr>"
  by (simp add: ChangeSummarySchema_safeParse_def)

lemma generateChangeSummary_outcomes:
  fixes cfg zodMessage generateObject changes
  defines "actual \<equiv> filter (\<lambda>c. added c \<or> removed c) changes"
  defines "G \<equiv> generateChangeSummary cfg zodMessage generateObject (Some changes)"
  shows "actual = [] \<Longrightarrow> G = (Inr defaultNoChangesResult, [])"
    and "actual \<noteq> [] \<Longrightarrow> generateObject (summaryRequest cfg actual) = Inl error \<Longrightarrow>
         G = (Inr defaultErrorResult, [summaryRequest cfg actual])"
    and "actual \<noteq> [] \<Longrightarrow> generateObject (summaryRequest cfg actual) = Inr object \<Longrightarrow>
         ChangeSummarySchema_safeParse zodMessage object = Inl detail \<Longrightarrow>
         G = (Inr \<lparr>isWorthToReport = False,
                    reportedChanges = ''Error: AI response did not match expected format. Details: ''
                      @ detail @ ''. Error generating change summary.''\<rparr>,
              [summaryRequest cfg actual])"
    and "actual \<noteq> [] \<Longrightarrow> generateObject (summaryRequest cfg actual) = Inr object \<Longrightarrow>
         ChangeSummarySchema_safeParse zodMessage object = Inr data \<Longrightarrow>
         G = (Inr data, [summaryRequest cfg actual])"
  by (simp_all add: actual_def G_def generateChangeSummary_def defaultErrorResult_def)

text \<open>
  C9, as the code has it. Given a list of changes, \<open>generateChangeSummary\<close> returns a
  result. A response of the collaborator that passes the schema validation is returned
  unchanged: the result carries its \<open>isWorthToReport\<close> and its \<open>reportedChanges\<close>. In
  every other outcome (the short-circuit, the provider-error fallback, the
  validation-failure fallback) \<open>reportedChanges\<close> is non-empty. So \<open>reportedChanges\<close> is
  empty exactly when the collaborator was called and answered with an object that passes
  the validation and whose \<open>reportedChanges\<close> is the empty string.
\<close>

theorem generateChangeSummary_reportedChanges:
  "(\<exists>r. fst (generateChangeSummary cfg zodMessage generateObject (Some changes)) = Inr r) \<and>
   (filter (\<lambda>c. added c \<or> removed c) changes \<noteq> [] \<longrightarrow>
    generateObject (summaryRequest cfg (filter (\<lambda>c. added c \<or> removed c) changes))
      = Inr (JObj members) \<longrightarrow>
    map_of members ''isWorthToReport'' = Some (JBool b) \<longrightarrow>
    map_of members ''reportedChanges'' = Some (JStr s) \<longrightarrow>
      generateChangeSummary cfg zodMessage generateObject (Some changes)
        = (Inr \<lparr>isWorthToReport = b, reportedChanges = s\<rparr>,
           [summaryRequest cfg (filter (\<lambda>c. added c \<or> removed c) changes)])) \<and>
   (fst (generateChangeSummary cfg zodMessage generateObject (Some changes)) = Inr r \<longrightarrow>
    filter (\<lambda>c. added c \<or> removed c) changes = [] \<or>
    (\<exists>error. generateObject (summaryRequest cfg (filter (\<lambda>c. added c \<or> removed c) changes))
        = Inl error) \<or>
    (\<exists>object detail.
        generateObject (summaryRequest cfg (filter (\<lambda>c. added c \<or> removed c) changes))
          = Inr object \<and>
        ChangeSummarySchema_safeParse zodMessage object = Inl detail) \<longrightarrow>
      reportedChanges r \<noteq> []) \<and>
   (fst (generateChangeSummary cfg zodMessage generateObject (Some changes)) = Inr r \<longrightarrow>
      (reportedChanges r = [] \<longleftrightarrow>
         filter (\<lambda>c. added c \<or> removed c) changes \<noteq> [] \<and>
         (\<exists>members b.
            generateObject (summaryRequest cfg (filter (\<lambda>c. added c \<or> removed c) changes))
              = Inr (JObj members) \<and>
            map_of members ''isWorthToReport'' = Some (JBool b) \<and>
            map_of members ''reportedChanges'' = Some (JStr []))))"
proof -
  let ?actual = "filter (\<lambda>c. added c \<or> removed c) changes"
  let ?request = "summaryRequest cfg ?actual"
  let ?G = "generateChangeSummary cfg zodMessage generateObject (Some changes)"
  note outcomes = generateChangeSummary_outcomes
    [where changes = changes and cfg = cfg and generateObject = generateObject
       and zodMessage = zodMessage]
  have returns: "\<exists>r. fst ?G = Inr r"
  proof (cases "?actual = []")
    case True
    from outcomes(1) [OF True] show ?thesis by simp
  next
    case False
    show ?thesis
    proof (cases "generateObject ?request")
      case (Inl error)
      from outcomes(2) [OF False Inl] show ?thesis by simp
    next
      case (Inr object)
      show ?thesis
      proof (cases "ChangeSummarySchema_safeParse zodMessage object")
        case (Inl detail)
        from outcomes(3) [OF False Inr Inl] show ?thesis by simp
      next
        case data: (Inr data)
        from outcomes(4) [OF False Inr data] show ?thesis by simp
      qed
    qed
  qed
  have unchanged: "?G = (Inr \<lparr>isWorthToReport = b, reportedChanges = s\<rparr>, [?request])"
    if "?actual \<noteq> []" "generateObject ?request = Inr (JObj members)"
      "map_of members ''isWorthToReport'' = Some (JBool b)"
      "map_of members ''reportedChanges'' = Some (JStr s)"
    using outcomes(4) [OF that(1) that(2) safeParse_valid [OF that(3) that(4)]] .
  have fallbacks: "reportedChanges r \<noteq> []"
    if ret: "fst ?G = Inr r"
      and other: "?actual = [] \<or> (\<exists>error. generateObject ?request = Inl error) \<or>
        (\<exists>object detail. generateObject ?request = Inr object \<and>
           ChangeSummarySchema_safeParse zodMessage object = Inl detail)"
  proof (cases "?actual = []")
    case True
    from outcomes(1) [OF True] ret show ?thesis
      by (auto simp: defaultNoChangesResult_def)
  next
    case False
    with other consider
      (provider) error where "generateObject ?request = Inl error"
      | (invalid) object detail where "generateObject ?request = Inr object"
          "ChangeSummarySchema_safeParse zodMessage object = Inl detail"
      by blast
    then show ?thesis
    proof cases
      case provider
      from outcomes(2) [OF False provider] ret show ?thesis
        by (auto simp: defaultErrorResult_def)
    next
      case invalid
      from outcomes(3) [OF False invalid] ret show ?thesis
        by auto
    qed
  qed
  have exactly: "reportedChanges r = [] \<longleftrightarrow>
      ?actual \<noteq> [] \<and>
      (\<exists>members b. generateObject ?request = Inr (JObj members) \<and>
         map_of members ''isWorthToReport'' = Some (JBool b) \<and>
         map_of members ''reportedChanges'' = Some (JStr []))"
    if ret: "fst ?G = Inr r"
  proof
    assume empty: "reportedChanges r = []"
    with fallbacks [OF ret] have ne: "?actual \<noteq> []"
      and no_error: "\<forall>error. generateObject ?request \<noteq> Inl error"
      and valid: "\<forall>object detail. generateObject ?request = Inr object \<longrightarrow>
          ChangeSummarySchema_safeParse zodMessage object \<noteq> Inl detail"
      by blast+
    from no_error obtain object where object: "generateObject ?request = Inr object"
      by (cases "generateObject ?request") auto
    with valid obtain data where data: "ChangeSummarySchema_safeParse zodMessage object = Inr data"
      by (cases "ChangeSummarySchema_safeParse zodMessage object") auto
    from outcomes(4) [OF ne object data] ret have "data = r" by simp
    with safeParse_Inr [OF data] empty object ne
    show "?actual \<noteq> [] \<and>
      (\<exists>members b. generateObject ?request = Inr (JObj members) \<and>
         map_of members ''isWorthToReport'' = Some (JBool b) \<and>
         map_of members ''reportedChanges'' = Some (JStr []))"
      by auto
  next
    assume "?actual \<noteq> [] \<and>
      (\<exists>members b. generateObject ?request = Inr (JObj members) \<and>
         map_of members ''isWorthToReport'' = Some (JBool b) \<and>
         map_of members ''reportedChanges'' = Some (JStr []))"
    then obtain members' b' where ne: "?actual \<noteq> []"
      and m: "generateObject ?request = Inr (JObj members')"
        "map_of members' ''isWorthToReport'' = Some (JBool b')"
        "map_of members' ''reportedChanges'' = Some (JStr [])"
      by blast
    from outcomes(4) [OF ne m(1) safeParse_valid [OF m(2) m(3)]] ret
    show "reportedChanges r = []" by auto
  qed
  from returns unchanged fallbacks exactly show ?thesis
    by blast
qed


theorem generateChangeSummary_reportedChanges_witness:
  "filter (\<lambda>c. added c \<or> removed c) sampleChangesBasic \<noteq> [] \<and>
   ai_complex_changes (summaryRequest example_config
       (filter (\<lambda>c. added c \<or> removed c) sampleChangesBasic))
     = Inr (JObj [(''isWorthToReport'', JBool True), (''reportedChanges'', JStr ''Complex changes.'')]) \<and>
   generateChangeSummary example_config zod_required ai_complex_changes (Some sampleChangesBasic)
     = (Inr \<lparr>isWorthToReport = True, reportedChanges = ''Complex changes.''\<rparr>,
        [summaryRequest example_config (filter (\<lambda>c. added c \<or> removed c) sampleChangesBasic)]) \<and>
   ai_empty_summary (summaryRequest example_config
       (filter (\<lambda>c. added c \<or> removed c) sampleChangesBasic))
     = Inr (JObj [(''isWorthToReport'', JBool True), (''reportedChanges'', JStr [])]) \<and>
   generateChangeSummary example_config zod_required ai_empty_summary (Some sampleChangesBasic)
     = (Inr \<lparr>isWorthToReport = True, reportedChanges = []\<rparr>,
        [summaryRequest example_config (filter (\<lambda>c. added c \<or> removed c) sampleChangesBasic)]) \<and>
   ai_malformed (summaryRequest example_config
       (filter (\<lambda>c. added c \<or> removed c) sampleChangesBasic))
     = Inr (JObj [(''reportedChanges'', JStr ''Summary without evaluation.'')]) \<and>
   ChangeSummarySchema_safeParse zod_required
       (JObj [(''reportedChanges'', JStr ''Summary without evaluation.'')]) = Inl ''Required'' \<and>
   fst (generateChangeSummary example_config zod_required ai_malformed (Some sampleChangesBasic))
     = Inr \<lparr>isWorthToReport = False,
            reportedChanges = ''Error: AI response did not match expected format. Details: ''
              @ ''Required'' @ ''. Error generating change summary.''\<rparr> \<and>
   reportedChanges \<lparr>isWorthToReport = False,
            reportedChanges = ''Error: AI response did not match expected format. Details: ''
              @ ''Required'' @ ''. Error generating change summary.''\<rparr> \<noteq> []"
proof -
  let ?request = "summaryRequest example_config
    (filter (\<lambda>c. added c \<or> removed c) sampleChangesBasic)"
  let ?invalid = "\<lparr>isWorthToReport = False,
            reportedChanges = ''Error: AI response did not match expected format. Details: ''
              @ ''Required'' @ ''. Error generating change summary.''\<rparr>"
  have ne: "filter (\<lambda>c. added c \<or> removed c) sampleChangesBasic \<noteq> []"
    by (simp add: sampleChangesBasic_def)
  have complex: "ai_complex_changes ?request
      = Inr (JObj [(''isWorthToReport'', JBool True), (''reportedChanges'', JStr ''Complex changes.'')])"
    by (simp add: ai_complex_changes_def)
  have empty: "ai_empty_summary ?request
      = Inr (JObj [(''isWorthToReport'', JBool True), (''reportedChanges'', JStr [])])"
    by (simp add: ai_empty_summary_def)
  have malformed: "ai_malformed ?request
      = Inr (JObj [(''reportedChanges'', JStr ''Summary without evaluation.'')])"
    by (simp add: ai_malformed_def)
  have refused: "ChangeSummarySchema_safeParse zod_required
      (JObj [(''reportedChanges'', JStr ''Summary without evaluation.'')]) = Inl ''Required''"
    by (simp add: ChangeSummarySchema_safeParse_def zod_required_def)
  have fallback: "fst (generateChangeSummary example_config zod_required ai_malformed
      (Some sampleChangesBasic)) = Inr ?invalid"
    by (simp add: generateChangeSummary_def sample_actual ai_malformed_def
        ChangeSummarySchema_safeParse_def zod_required_def defaultErrorResult_def)
  from generateChangeSummary_reportedChanges
    [of example_config zod_required ai_complex_changes sampleChangesBasic
      "[(''isWorthToReport'', JBool True), (''reportedChanges'', JStr ''Complex changes.'')]"
      True "''Complex changes.''"] ne complex
  have returned: "generateChangeSummary example_config zod_required ai_complex_changes
      (Some sampleChangesBasic)
      = (Inr \<lparr>isWorthToReport = True, reportedChanges = ''Complex changes.''\<rparr>, [?request])"
    by simp
  from generateChangeSummary_reportedChanges
    [of example_config zod_required ai_empty_summary sampleChangesBasic
      "[(''isWorthToReport'', JBool True), (''reportedChanges'', JStr [])]" True "[]"] ne empty
  have returned_empty: "generateChangeSummary example_config zod_required ai_empty_summary
      (Some sampleChangesBasic)
      = (Inr \<lparr>isWorthToReport = True, reportedChanges = []\<rparr>, [?request])"
    by simp
  from generateChangeSummary_reportedChanges
    [of example_config zod_required ai_malformed sampleChangesBasic _ _ _ ?invalid]
    fallback malformed refused
  have "reportedChanges ?invalid \<noteq> []"
    by blast
  with ne complex empty malformed refused fallback returned returned_empty show ?thesis
    by blast
qed

text \<open>
  C9, as the specification states it, fails when the collaborator answers with an empty
  summary: the schema asks for a string of any length, and the result is returned with
  \<open>reportedChanges\<close> empty.
\<close>

theorem generateChangeSummary_empty_summary_counterexample:
  "fst (generateChangeSummary example_config zod_required ai_empty_summary
         (Some sampleChangesBasic))
     = Inr \<lparr>isWorthToReport = True, reportedChanges = []\<rparr>"
  by (simp add: generateChangeSummary_def sample_actual ai_empty_summary_def
      ChangeSummarySchema_safeParse_def)

subsection \<open>sendTelegramNotification\<close>

lemma getBotInstance_result:
  "getBotInstance cfg api st = (found, st1, effs) \<Longrightarrow> botInstance st1 = found"
  by (auto simp: getBotInstance_def Let_def split: if_splits option.splits)

text \<open>
  Where no send rejects with \<^verbatim>\<open>undefined\<close> or \<^verbatim>\<open>null\<close>, \<open>sendTelegramNotification\<close>
  returns normally from every client state. Without a bot (credentials absent, or the
  constructor threw) it logs that the notification is skipped, with the reason, and logs
  the message. When the send rejects it logs the error and the message that was not
  delivered.
\<close>

lemma sendTelegramNotification_swallows:
  "(\<forall>tbot. sendMessage api tbot (telegramChatId cfg) text ''MarkdownV2'' \<noteq> Some Undefined \<and>
           sendMessage api tbot (telegramChatId cfg) text ''MarkdownV2'' \<noteq> Some Null) \<longrightarrow>
   (case sendTelegramNotification cfg api st text of (outcome, st1, effects) \<Rightarrow>
      outcome = Inr () \<and>
      (botInstance st1 = None \<longrightarrow>
         Console_log [Str (''Telegram '' @ (if botInitializationError st1 \<noteq> None
                                            then ''bot failed to initialize''
                                            else ''notifications are disabled'')
                           @ ''. Skipping notification.'')] \<in> set effects \<and>
         Console_log [Str (''[Telegram Notification Skipped]:'' @ [newline] @ text)]
           \<in> set effects) \<and>
      (\<forall>tbot reason. botInstance st1 = Some tbot \<longrightarrow>
         sendMessage api tbot (telegramChatId cfg) text ''MarkdownV2'' = Some reason \<longrightarrow>
         (\<exists>shown. Console_error [Str ''Error sending Telegram notification:'', shown]
                    \<in> set effects) \<and>
         Console_error [Str (''[Failed Telegram Message]:'' @ [newline] @ text)]
           \<in> set effects))"
proof
  assume ok: "\<forall>tbot. sendMessage api tbot (telegramChatId cfg) text ''MarkdownV2'' \<noteq> Some Undefined \<and>
           sendMessage api tbot (telegramChatId cfg) text ''MarkdownV2'' \<noteq> Some Null"
  obtain found st1 effs where g: "getBotInstance cfg api st = (found, st1, effs)"
    by (cases "getBotInstance cfg api st") auto
  have inst: "botInstance st1 = found"
    using g by (rule getBotInstance_result)
  show "case sendTelegramNotification cfg api st text of (outcome, st1, effects) \<Rightarrow>
      outcome = Inr () \<and>
      (botInstance st1 = None \<longrightarrow>
         Console_log [Str (''Telegram '' @ (if botInitializationError st1 \<noteq> None
                                            then ''bot failed to initialize''
                                            else ''notifications are disabled'')
                           @ ''. Skipping notification.'')] \<in> set effects \<and>
         Console_log [Str (''[Telegram Notification Skipped]:'' @ [newline] @ text)]
           \<in> set effects) \<and>
      (\<forall>tbot reason. botInstance st1 = Some tbot \<longrightarrow>
         sendMessage api tbot (telegramChatId cfg) text ''MarkdownV2'' = Some reason \<longrightarrow>
         (\<exists>shown. Console_error [Str ''Error sending Telegram notification:'', shown]
                    \<in> set effects) \<and>
         Console_error [Str (''[Failed Telegram Message]:'' @ [newline] @ text)]
           \<in> set effects)"
  proof (cases found)
    case None
    with g inst show ?thesis
      by (simp add: sendTelegramNotification_def Let_def)
  next
    case (Some tbot)
    show ?thesis
    proof (cases "sendMessage api tbot (telegramChatId cfg) text ''MarkdownV2''")
      case None
      with Some g inst show ?thesis
        by (simp add: sendTelegramNotification_def Let_def)
    next
      case reason: (Some reason)
      with ok have "reason \<noteq> Undefined" "reason \<noteq> Null"
        by auto
      then obtain a b c d e where "reason = Thrown a b c d e"
        by (cases reason) auto
      with Some reason g inst show ?thesis
        by (auto simp: sendTelegramNotification_def Let_def)
    qed
  qed
qed

lemma sendTelegramNotification_three_states:
  "sendTelegramNotification (example_config\<lparr>telegramChatId := []\<rparr>)
       (telegram_send_rejects Undefined) notifier_initial ''Test message''
     = (Inr (),
        \<lparr>botInstance = None, botInitializationError = None, isBotInitialized = True\<rparr>,
        [Console_warn [Str ''Telegram bot token or chat ID not provided. Telegram notifications disabled.''],
         Console_log [Str ''Telegram notifications are disabled. Skipping notification.''],
         Console_log [Str (''[Telegram Notification Skipped]:'' @ [newline] @ ''Test message'')]])"
  "sendTelegramNotification example_config
       (telegram_init_throws (new_Error ''Invalid bot token'')) notifier_initial ''Test message''
     = (Inr (),
        \<lparr>botInstance = None,
         botInitializationError = Some (new_Error ''Invalid bot token''),
         isBotInitialized = True\<rparr>,
        [Console_error [Str ''Failed to initialize Telegram bot:'',
           Val (new_Error ''Invalid bot token'')],
         Console_log [Str ''Telegram bot failed to initialize. Skipping notification.''],
         Console_log [Str (''[Telegram Notification Skipped]:'' @ [newline] @ ''Test message'')],
         Console_error [Str ''Initialization error details:'',
           Val (new_Error ''Invalid bot token'')]])"
  "sendTelegramNotification example_config
       (telegram_send_rejects (new_Error ''Telegram API error'')) notifier_initial
       ''Test message''
     = (Inr (),
        \<lparr>botInstance = Some (TelegramBot ''MOCK_TOKEN''), botInitializationError = None,
         isBotInitialized = True\<rparr>,
        [Console_log [Str ''Telegram bot initialized on first use.''],
         Console_log [Str ''Sending notification to Telegram chat ID: MOCK_CHAT_ID''],
         SendMessage ''MOCK_CHAT_ID'' ''Test message'' ''MarkdownV2'',
         Console_error [Str ''Error sending Telegram notification:'', Str ''Telegram API error''],
         Console_error [Str (''[Failed Telegram Message]:'' @ [newline] @ ''Test message'')]])"
  by (simp_all add: sendTelegramNotification_def getBotInstance_def example_config_def
      telegram_send_rejects_def telegram_init_throws_def notifier_initial_def Let_def
      new_Error_def)

text \<open>
  C6 fails where the send rejects with \<^verbatim>\<open>undefined\<close> (or \<^verbatim>\<open>null\<close>): the handler
  evaluates \<^verbatim>\<open>error.message || error\<close>, reading a property of \<^verbatim>\<open>undefined\<close> raises a
  \<^verbatim>\<open>TypeError\<close> inside the \<^verbatim>\<open>catch\<close> clause, the call rejects, and the line that logs
  the undelivered message is never reached.
\<close>

theorem sendTelegramNotification_nullish_rejection:
  "sendTelegramNotification example_config (telegram_send_rejects Undefined) notifier_initial
      ''Test message''
     = (Inl (TypeError ''Cannot read properties of undefined (reading 'message')''),
        \<lparr>botInstance = Some (TelegramBot ''MOCK_TOKEN''), botInitializationError = None,
         isBotInitialized = True\<rparr>,
        [Console_log [Str ''Telegram bot initialized on first use.''],
         Console_log [Str ''Sending notification to Telegram chat ID: MOCK_CHAT_ID''],
         SendMessage ''MOCK_CHAT_ID'' ''Test message'' ''MarkdownV2''])"
  by (simp add: sendTelegramNotification_def getBotInstance_def example_config_def
      telegram_send_rejects_def notifier_initial_def Let_def)

subsection \<open>writeState and readLastState\<close>

lemma error_code_is_fs_error [simp]:
  "error_code_is (fs_error code_name p) code_name' = Inr (code_name = code_name')"
  by (simp add: error_code_is_def fs_error_def)

lemma errno_not_ENOENT [simp]: "errno f \<noteq> ''ENOENT''"
  by (cases f) (simp_all add: errno_def)

lemma walk_None_iff:
  "walk fs qs = None \<longleftrightarrow> list_all (\<lambda>q. node_at fs q = Some Directory) qs"
  by (induction qs) (auto split: option.splits node.splits)

lemma walk_no_file:
  "list_all (\<lambda>q. \<forall>data. node_at fs q \<noteq> Some (File data)) qs \<Longrightarrow>
   walk fs qs = None \<or> walk fs qs = Some ''ENOENT''"
  by (induction qs) (auto split: option.splits node.splits)

lemma prefixes_ancestors: "prefixes p = ancestors p @ [p]"
proof (cases "p = []")
  case True
  then show ?thesis by (simp add: ancestors_def)
next
  case False
  then have "p = butlast p @ [last p]" by simp
  then have "prefixes p = prefixes (butlast p) @ [p]"
    by (metis prefixes_snoc)
  with False show ?thesis by (simp add: ancestors_def)
qed

lemma not_own_ancestor: "p \<notin> set (ancestors p)"
proof (cases "p = []")
  case True
  then show ?thesis by (simp add: ancestors_def)
next
  case False
  have "\<not> prefix p (butlast p)"
  proof
    assume "prefix p (butlast p)"
    then have "length p \<le> length (butlast p)" by (rule prefix_length_le)
    moreover from False have "length (butlast p) < length p"
      by (cases p rule: rev_cases) simp_all
    ultimately show False by linarith
  qed
  with False show ?thesis by (simp add: ancestors_def in_set_prefixes)
qed

lemma directories_to_file:
  "list_all (\<lambda>q. node_at fs q = Some Directory) (prefixes (butlast p)) \<Longrightarrow> p \<noteq> [] \<Longrightarrow>
   walk fs (ancestors p) = None"
  by (simp add: walk_None_iff ancestors_def)

lemma directories_to_parent:
  "list_all (\<lambda>q. node_at fs q = Some Directory) (prefixes d) \<longleftrightarrow>
   walk fs (ancestors d) = None \<and> node_at fs d = Some Directory"
  by (simp add: walk_None_iff prefixes_ancestors)

lemma ensureStateDirectoryExists_present:
  assumes "list_all (\<lambda>q. node_at fs q = Some Directory) (prefixes (path_dirname (stateFilePath cfg)))"
  shows "ensureStateDirectoryExists cfg fs =
           (case faults fs Access (path_dirname (stateFilePath cfg)) of
              Some f \<Rightarrow> (Inl (fs_error (errno f) (path_dirname (stateFilePath cfg))), fs)
            | None \<Rightarrow> (Inr (), fs))"
  using assms
  by (simp add: ensureStateDirectoryExists_def Let_def fs_access_def resolve_def
      directories_to_parent split: option.splits)

lemma readLastState_present:
  assumes dirs: "list_all (\<lambda>q. node_at fs q = Some Directory)
                   (prefixes (path_dirname (stateFilePath cfg)))"
    and leaf: "node_at fs (stateFilePath cfg) = Some (File data)"
    and path: "stateFilePath cfg \<noteq> []"
  shows "readLastState cfg JSON fs =
           (case faults fs Access (path_dirname (stateFilePath cfg)) of
              Some f \<Rightarrow> (Inl (fs_error (errno f) (path_dirname (stateFilePath cfg))), fs)
            | None \<Rightarrow>
                (case faults fs ReadFile (stateFilePath cfg) of
                   Some f \<Rightarrow> (Inl (fs_error (errno f) (stateFilePath cfg)), fs)
                 | None \<Rightarrow>
                     (case JSON_parse JSON data of
                        Inl error \<Rightarrow> (readLastState_catch error, fs)
                      | Inr state \<Rightarrow> (Inr state, fs))))"
proof -
  from dirs path have "walk fs (ancestors (stateFilePath cfg)) = None"
    by (simp add: directories_to_file path_dirname_def)
  with leaf show ?thesis
    by (simp add: readLastState_def ensureStateDirectoryExists_present [OF dirs]
        fs_readFile_def resolve_def readLastState_catch_def
        split: option.splits sum.splits)
qed

lemma fs_writeFile_ok:
  assumes "fs_writeFile fs p data = Inr fs1"
  shows "walk fs (ancestors p) = None"
    and "p \<noteq> []"
    and "fs1 = fs\<lparr>nodes := (nodes fs)(p \<mapsto> File data)\<rparr>"
  using assms
  by (auto simp: fs_writeFile_def resolve_def node_at_def
      split: option.splits sum.splits node.splits if_splits)

lemma written_file:
  assumes walk: "walk fs (ancestors p) = None" and path: "p \<noteq> []"
  shows "list_all (\<lambda>q. node_at (fs\<lparr>nodes := (nodes fs)(p \<mapsto> File data)\<rparr>) q = Some Directory)
           (prefixes (path_dirname p))"
    and "node_at (fs\<lparr>nodes := (nodes fs)(p \<mapsto> File data)\<rparr>) p = Some (File data)"
proof -
  from walk path have "list_all (\<lambda>q. node_at fs q = Some Directory) (prefixes (butlast p))"
    by (simp add: walk_None_iff ancestors_def)
  moreover have "q \<in> set (prefixes (butlast p)) \<Longrightarrow> q \<noteq> p" for q
    using not_own_ancestor [of p] path by (auto simp: ancestors_def)
  ultimately show "list_all (\<lambda>q. node_at (fs\<lparr>nodes := (nodes fs)(p \<mapsto> File data)\<rparr>) q = Some Directory)
           (prefixes (path_dirname p))"
    by (auto simp: list_all_iff node_at_def path_dirname_def)
  from path show "node_at (fs\<lparr>nodes := (nodes fs)(p \<mapsto> File data)\<rparr>) p = Some (File data)"
    by (simp add: node_at_def)
qed

lemma mkdir_each_creates:
  "list_all (\<lambda>q. \<forall>data. node_at fs q \<noteq> Some (File data)) qs \<Longrightarrow>
   \<exists>fs'. mkdir_each fs target qs = Inr fs' \<and> faults fs' = faults fs \<and>
         (\<forall>q. node_at fs' q = (if q \<in> set qs then Some Directory else node_at fs q))"
proof (induction qs arbitrary: fs)
  case Nil
  then show ?case by simp
next
  case (Cons q qs)
  show ?case
  proof (cases "node_at fs q")
    case None
    let ?fs = "fs\<lparr>nodes := (nodes fs)(q \<mapsto> Directory)\<rparr>"
    from None have q: "q \<noteq> []" by (auto simp: node_at_def)
    then have at: "node_at ?fs x = (if x = q then Some Directory else node_at fs x)" for x
      by (simp add: node_at_def)
    from Cons.prems have "list_all (\<lambda>q. \<forall>data. node_at ?fs q \<noteq> Some (File data)) qs"
      by (simp add: at list_all_iff)
    from Cons.IH [OF this] None show ?thesis
      by (auto simp: at)
  next
    case (Some n)
    with Cons.prems have n: "node_at fs q = Some Directory"
      by (cases n) auto
    from Cons.prems have "list_all (\<lambda>q. \<forall>data. node_at fs q \<noteq> Some (File data)) qs"
      by simp
    from Cons.IH [OF this] n show ?thesis
      by auto
  qed
qed

lemma ensureStateDirectoryExists_creates:
  assumes free: "faults fs = (\<lambda>op p. None)"
    and clear: "list_all (\<lambda>q. \<forall>data. node_at fs q \<noteq> Some (File data))
                  (prefixes (path_dirname (stateFilePath cfg)))"
  shows "\<exists>fs0. ensureStateDirectoryExists cfg fs = (Inr (), fs0) \<and> faults fs0 = faults fs \<and>
           (\<forall>q. node_at fs0 q = (if q \<in> set (prefixes (path_dirname (stateFilePath cfg)))
                                   then Some Directory else node_at fs q))"
proof -
  let ?dir = "path_dirname (stateFilePath cfg)"
  show ?thesis
  proof (cases "list_all (\<lambda>q. node_at fs q = Some Directory) (prefixes ?dir)")
    case True
    with free show ?thesis
      by (auto simp: ensureStateDirectoryExists_present list_all_iff)
  next
    case False
    from clear have anc: "list_all (\<lambda>q. \<forall>data. node_at fs q \<noteq> Some (File data)) (ancestors ?dir)"
      and leaf: "\<forall>data. node_at fs ?dir \<noteq> Some (File data)"
      by (simp_all add: prefixes_ancestors)
    from False have "walk fs (ancestors ?dir) \<noteq> None \<or> node_at fs ?dir \<noteq> Some Directory"
      by (simp add: directories_to_parent)
    with walk_no_file [OF anc] leaf
    have "walk fs (ancestors ?dir) = Some ''ENOENT'' \<or>
          (walk fs (ancestors ?dir) = None \<and> node_at fs ?dir = None)"
      by (cases "node_at fs ?dir"; cases "the (node_at fs ?dir)"; auto)
    then have access: "fs_access fs ?dir = Inl (fs_error ''ENOENT'' ?dir)"
      using free by (auto simp: fs_access_def resolve_def)
    from mkdir_each_creates [OF clear, of ?dir]
    obtain fs0 where "mkdir_each fs ?dir (prefixes ?dir) = Inr fs0" "faults fs0 = faults fs"
      "\<forall>q. node_at fs0 q = (if q \<in> set (prefixes ?dir) then Some Directory else node_at fs q)"
      by blast
    with access free show ?thesis
      by (simp add: ensureStateDirectoryExists_def Let_def fs_mkdir_def)
  qed
qed

lemma readLastState_first_run:
  assumes free: "faults fs = (\<lambda>op p. None)"
    and dirs: "list_all (\<lambda>q. node_at fs q = Some Directory)
                 (prefixes (path_dirname (stateFilePath cfg)))"
    and missing: "node_at fs (stateFilePath cfg) = None"
  shows "readLastState cfg JSON fs = (Inr JNull, fs)"
proof -
  from missing have path: "stateFilePath cfg \<noteq> []"
    by (auto simp: node_at_def)
  with dirs have "walk fs (ancestors (stateFilePath cfg)) = None"
    by (simp add: directories_to_file path_dirname_def)
  with free missing show ?thesis
    by (simp add: readLastState_def ensureStateDirectoryExists_present [OF dirs]
        fs_readFile_def resolve_def readLastState_catch_def)
qed

lemma storage_refusals:
  "writeState example_config json_table state_a1
     (empty_disk\<lparr>nodes := [[''tmp''] \<mapsto> File ''x'']\<rparr>)
   = (Inl (fs_error ''ENOTDIR'' [''tmp'', ''test-lastState.json'']),
      empty_disk\<lparr>nodes := [[''tmp''] \<mapsto> File ''x'']\<rparr>)"
  "readLastState example_config json_table
     (empty_disk\<lparr>nodes := [[''tmp''] \<mapsto> File ''x'']\<rparr>)
   = (Inl (fs_error ''ENOTDIR'' [''tmp'', ''test-lastState.json'']),
      empty_disk\<lparr>nodes := [[''tmp''] \<mapsto> File ''x'']\<rparr>)"
  "writeState example_config json_table state_a1
     (empty_disk\<lparr>nodes := [[''tmp''] \<mapsto> Directory,
                                [''tmp'', ''test-lastState.json''] \<mapsto> Directory]\<rparr>)
   = (Inl (fs_error ''EISDIR'' [''tmp'', ''test-lastState.json'']),
      empty_disk\<lparr>nodes := [[''tmp''] \<mapsto> Directory,
                                [''tmp'', ''test-lastState.json''] \<mapsto> Directory]\<rparr>)"
  "readLastState (example_config\<lparr>stateFilePath := [''tmp'', ''data'', ''state.json'']\<rparr>) json_table
     (empty_disk\<lparr>nodes := [[''tmp''] \<mapsto> File ''x'']\<rparr>)
   = (Inl (fs_error ''ENOTDIR'' [''tmp'', ''data'']),
      empty_disk\<lparr>nodes := [[''tmp''] \<mapsto> File ''x'']\<rparr>)"
  "ensureStateDirectoryExists (example_config\<lparr>stateFilePath := [''var'', ''lib'', ''state.json'']\<rparr>)
     empty_disk
   = (Inr (), empty_disk\<lparr>nodes := [[''var''] \<mapsto> Directory, [''var'', ''lib''] \<mapsto> Directory]\<rparr>)"
  by (simp_all add: writeState_def readLastState_def readLastState_catch_def
      ensureStateDirectoryExists_def fs_access_def fs_mkdir_def fs_readFile_def
      fs_writeFile_def resolve_def ancestors_def node_at_def path_dirname_def Let_def
      empty_disk_def json_table_def example_config_def)

lemma writeState_examples:
  "writeState example_config json_table state_a1 empty_disk = (Inr (), disk_written)"
  "writeState example_config json_table state_a_infinity empty_disk = (Inr (), disk_written_infinity)"
  by (simp_all add: writeState_def ensureStateDirectoryExists_def fs_access_def fs_mkdir_def
      fs_writeFile_def resolve_def ancestors_def node_at_def path_dirname_def Let_def
      empty_disk_def disk_written_def disk_written_infinity_def json_table_def example_config_def
      state_a1_def state_a_infinity_def state_a_null_def)

text \<open>
  C8. \<open>writeState s\<close> followed by \<open>readLastState\<close> yields what \<^verbatim>\<open>JSON.parse\<close> makes of the
  text that \<^verbatim>\<open>JSON.stringify\<close> printed for \<open>s\<close>. Whenever the write succeeds and the read
  that follows returns a value, the value is that one, and the read leaves the file
  system as the write left it. And they do succeed: on a file system that refuses no
  call, where the state path is not a directory and no ancestor of it is a regular
  file, the write returns normally, and the read returns that value, or, should the
  parse raise, what its \<^verbatim>\<open>catch\<close> clause makes of the error. So the value read is
  structurally equal to \<open>s\<close> for the states that the serialisation preserves, and for no
  other.
\<close>

theorem writeState_readLastState_roundtrip:
  "(writeState cfg JSON s fs = (Inr (), fs1) \<longrightarrow>
      JSON_parse JSON (JSON_stringify JSON s) = Inr s' \<longrightarrow>
      readLastState cfg JSON fs1 = (Inr v, fs2) \<longrightarrow> v = s' \<and> fs2 = fs1) \<and>
   (faults fs = (\<lambda>op p. None) \<and> stateFilePath cfg \<noteq> [] \<and>
      node_at fs (stateFilePath cfg) \<noteq> Some Directory \<and>
      list_all (\<lambda>q. \<forall>data. node_at fs q \<noteq> Some (File data))
        (prefixes (path_dirname (stateFilePath cfg))) \<longrightarrow>
      (\<exists>fs1. writeState cfg JSON s fs = (Inr (), fs1) \<and>
         readLastState cfg JSON fs1 =
           (case JSON_parse JSON (JSON_stringify JSON s) of
              Inl error \<Rightarrow> (readLastState_catch error, fs1)
            | Inr state \<Rightarrow> (Inr state, fs1))))"
proof -
  let ?p = "stateFilePath cfg"
  let ?data = "JSON_stringify JSON s"
  have after_write: "v = s' \<and> fs2 = fs1"
    if w: "writeState cfg JSON s fs = (Inr (), fs1)"
      and codec: "JSON_parse JSON ?data = Inr s'"
      and r: "readLastState cfg JSON fs1 = (Inr v, fs2)"
  proof -
    obtain r0 fs0 where e: "ensureStateDirectoryExists cfg fs = (r0, fs0)"
      by (cases "ensureStateDirectoryExists cfg fs") auto
    from w e have wf: "fs_writeFile fs0 ?p ?data = Inr fs1"
      by (auto simp: writeState_def Let_def split: sum.splits)
    note ok = fs_writeFile_ok [OF wf]
    from written_file [OF ok(1) ok(2), of ?data] ok(3)
    have dirs: "list_all (\<lambda>q. node_at fs1 q = Some Directory) (prefixes (path_dirname ?p))"
      and leaf: "node_at fs1 ?p = Some (File ?data)"
      by simp_all
    from r codec show "v = s' \<and> fs2 = fs1"
      unfolding readLastState_present [OF dirs leaf ok(2)]
      by (auto simp: readLastState_catch_def split: option.splits)
  qed
  have both_succeed: "\<exists>fs1. writeState cfg JSON s fs = (Inr (), fs1) \<and>
         readLastState cfg JSON fs1 =
           (case JSON_parse JSON ?data of
              Inl error \<Rightarrow> (readLastState_catch error, fs1)
            | Inr state \<Rightarrow> (Inr state, fs1))"
    if h: "faults fs = (\<lambda>op p. None) \<and> ?p \<noteq> [] \<and> node_at fs ?p \<noteq> Some Directory \<and>
      list_all (\<lambda>q. \<forall>data. node_at fs q \<noteq> Some (File data)) (prefixes (path_dirname ?p))"
  proof -
    from ensureStateDirectoryExists_creates [of fs cfg] h
    obtain fs0 where e: "ensureStateDirectoryExists cfg fs = (Inr (), fs0)"
      and free: "faults fs0 = (\<lambda>op p. None)"
      and at: "\<forall>q. node_at fs0 q = (if q \<in> set (prefixes (path_dirname ?p))
                                   then Some Directory else node_at fs q)"
      by auto
    let ?fs1 = "fs0\<lparr>nodes := (nodes fs0)(?p \<mapsto> File ?data)\<rparr>"
    from h have p: "?p \<noteq> []" by simp
    from at have "list_all (\<lambda>q. node_at fs0 q = Some Directory) (prefixes (butlast ?p))"
      by (simp add: list_all_iff path_dirname_def)
    with p have walk: "walk fs0 (ancestors ?p) = None"
      by (simp add: directories_to_file)
    from not_own_ancestor [of ?p] p have "?p \<notin> set (prefixes (path_dirname ?p))"
      by (simp add: ancestors_def path_dirname_def)
    with at h have "node_at fs0 ?p \<noteq> Some Directory" by simp
    with walk free have "fs_writeFile fs0 ?p ?data = Inr ?fs1"
      by (auto simp: fs_writeFile_def resolve_def split: option.splits node.splits)
    with e have w: "writeState cfg JSON s fs = (Inr (), ?fs1)"
      by (simp add: writeState_def Let_def)
    have "faults ?fs1 = (\<lambda>op p. None)" using free by simp
    with readLastState_present [OF written_file [OF walk p, of ?data] p, of JSON]
    have "readLastState cfg JSON ?fs1 =
           (case JSON_parse JSON ?data of
              Inl error \<Rightarrow> (readLastState_catch error, ?fs1)
            | Inr state \<Rightarrow> (Inr state, ?fs1))"
      by simp
    with w show ?thesis
      by blast
  qed
  from after_write both_succeed show ?thesis
    by blast
qed

theorem writeState_readLastState_roundtrip_witness:
  "writeState example_config json_table state_a1 empty_disk = (Inr (), disk_written) \<and>
   JSON_parse json_table (JSON_stringify json_table state_a1) = Inr state_a1 \<and>
   faults empty_disk = (\<lambda>op p. None) \<and> stateFilePath example_config \<noteq> [] \<and>
   node_at empty_disk (stateFilePath example_config) \<noteq> Some Directory \<and>
   list_all (\<lambda>q. \<forall>data. node_at empty_disk q \<noteq> Some (File data))
     (prefixes (path_dirname (stateFilePath example_config))) \<and>
   readLastState example_config json_table disk_written = (Inr state_a1, disk_written)"
proof -
  have codec: "JSON_parse json_table (JSON_stringify json_table state_a1) = Inr state_a1"
    by (simp add: json_table_def)
  have free: "faults empty_disk = (\<lambda>op p. None) \<and> stateFilePath example_config \<noteq> [] \<and>
      node_at empty_disk (stateFilePath example_config) \<noteq> Some Directory \<and>
      list_all (\<lambda>q. \<forall>data. node_at empty_disk q \<noteq> Some (File data))
        (prefixes (path_dirname (stateFilePath example_config)))"
    by (simp add: empty_disk_def example_config_def node_at_def path_dirname_def)
  from writeState_readLastState_roundtrip
    [of example_config json_table state_a1 empty_disk disk_written state_a1 state_a1 disk_written]
    free codec writeState_examples(1)
  have "readLastState example_config json_table disk_written = (Inr state_a1, disk_written)"
    by auto
  with codec free writeState_examples(1) show ?thesis by blast
qed

text \<open>
  The object \<^verbatim>\<open>{a: Infinity}\<close>, which the fetcher delivers for the body
  \<^verbatim>\<open>{"a": 1e400}\<close>, is written as \<^verbatim>\<open>{"a": null}\<close> and read back as \<^verbatim>\<open>{a: null}\<close>.
\<close>

theorem writeState_readLastState_infinity_counterexample:
  "writeState example_config json_table state_a_infinity empty_disk = (Inr (), disk_written_infinity) \<and>
   readLastState example_config json_table disk_written_infinity = (Inr state_a_null, disk_written_infinity) \<and>
   state_a_null \<noteq> state_a_infinity"
proof -
  have "readLastState example_config json_table disk_written_infinity
          = (Inr state_a_null, disk_written_infinity)"
    by (simp add: readLastState_def ensureStateDirectoryExists_def fs_access_def fs_readFile_def
        resolve_def ancestors_def node_at_def path_dirname_def Let_def
        disk_written_infinity_def json_table_def example_config_def text_a_null_def text_a1_def)
  moreover have "state_a_null \<noteq> state_a_infinity"
    by (simp add: state_a_null_def state_a_infinity_def)
  ultimately show ?thesis
    using writeState_examples(2) by simp
qed

subsection \<open>compareJson\<close>







lemma compareJson_reporting_diff:
  assumes "stringify previous \<noteq> stringify current \<Longrightarrow>
      \<exists>part \<in> set (diffJson previous current). added part \<or> removed part"
  shows "(\<exists>changes. compareJson diffJson previous current = Some changes \<and> changes \<noteq> [])
      \<longleftrightarrow> stringify previous \<noteq> stringify current"
  using assms by (auto simp: compareJson_def Let_def filter_empty_conv)




subsection \<open>checkJsonUpdates\<close>

lemma try_block_starts:
  "\<exists>calls. snd (try_block env) = FetchJsonData # calls"
  unfolding try_block_def andThen_def await_def
  by (auto split: sum.splits prod.splits)

lemma checkJsonUpdates_idle:
  "\<not> isJobRunning st \<Longrightarrow>
     fst (checkJsonUpdates env st) = st\<lparr>isJobRunning := False\<rparr> \<and>
     (\<exists>calls. snd (checkJsonUpdates env st) = FetchJsonData # calls)"
proof -
  assume idle: "\<not> isJobRunning st"
  obtain outcome calls where t: "try_block env = (outcome, calls)"
    by (cases "try_block env") auto
  from try_block_starts [of env] t obtain rest where "calls = FetchJsonData # rest"
    by auto
  with idle t show ?thesis
    by (cases outcome) (simp_all add: checkJsonUpdates_def enter_def finally_block_def)
qed

lemma step_invariant:
  "in_flight s \<le> 1 \<and> (isJobRunning (guard s) \<longleftrightarrow> in_flight s = 1) \<Longrightarrow>
     in_flight (step s e) \<le> 1 \<and> (isJobRunning (guard (step s e)) \<longleftrightarrow> in_flight (step s e) = 1)"
  by (cases e) (auto simp: enter_def finally_block_def)

lemma run_invariant:
  "in_flight (run events) \<le> 1 \<and> (isJobRunning (guard (run events)) \<longleftrightarrow> in_flight (run events) = 1)"
proof (induction events rule: rev_induct)
  case Nil
  then show ?case by (simp add: run_def at_start_def)
next
  case (snoc e events)
  have "run (events @ [e]) = step (run events) e"
    by (simp add: run_def)
  with step_invariant [OF snoc.IH, of e] show ?case by simp
qed

text \<open>
  C1. Invoked while the guard is set, \<open>checkJsonUpdates\<close> returns at once: it makes no
  collaborator call and leaves the guard as it is. Invoked while the guard is clear, it
  ends with the guard clear whatever the collaborators did, every failure included, and
  the next invocation proceeds: its first call is the fetch. Over any interleaving of
  triggers and settlings at most one cycle is in flight, the guard is set exactly while
  one is, and a trigger that arrives meanwhile changes nothing.
\<close>

theorem checkJsonUpdates_single_flight:
  "(isJobRunning st \<longrightarrow> checkJsonUpdates env st = (st, [])) \<and>
   (\<not> isJobRunning st \<longrightarrow>
      \<not> isJobRunning (fst (checkJsonUpdates env st)) \<and>
      (\<exists>calls. snd (checkJsonUpdates env' (fst (checkJsonUpdates env st)))
                 = FetchJsonData # calls)) \<and>
   in_flight (run events) \<le> 1 \<and>
   (isJobRunning (guard (run events)) \<longleftrightarrow> in_flight (run events) = 1) \<and>
   (isJobRunning (guard (run events)) \<longrightarrow> run (events @ [Trigger]) = run events)"
proof (intro conjI impI)
  assume "isJobRunning st"
  then show "checkJsonUpdates env st = (st, [])"
    by (simp add: checkJsonUpdates_def enter_def)
next
  assume "isJobRunning (guard (run events))"
  then show "run (events @ [Trigger]) = run events"
    by (simp add: run_def enter_def)
next
  assume idle: "\<not> isJobRunning st"
  from checkJsonUpdates_idle [OF idle, of env]
  show released: "\<not> isJobRunning (fst (checkJsonUpdates env st))"
    by simp
  from checkJsonUpdates_idle [OF released, of env']
  show "\<exists>calls. snd (checkJsonUpdates env' (fst (checkJsonUpdates env st))) = FetchJsonData # calls"
    by simp
next
  show "in_flight (run events) \<le> 1"
    using run_invariant by simp
  show "isJobRunning (guard (run events)) \<longleftrightarrow> in_flight (run events) = 1"
    using run_invariant by simp
qed

theorem checkJsonUpdates_single_flight_witness:
  "isJobRunning running \<and> checkJsonUpdates fetch_fails running = (running, []) \<and>
   \<not> isJobRunning idle \<and> \<not> isJobRunning (fst (checkJsonUpdates fetch_fails idle)) \<and>
   (\<exists>calls. snd (checkJsonUpdates (verdict_collaborators True)
                    (fst (checkJsonUpdates fetch_fails idle))) = FetchJsonData # calls) \<and>
   in_flight (run [Trigger, Trigger, Settle, Trigger]) \<le> 1 \<and>
   isJobRunning (guard (run [Trigger, Trigger, Settle, Trigger])) \<and>
   run ([Trigger, Trigger, Settle, Trigger] @ [Trigger]) = run [Trigger, Trigger, Settle, Trigger]"
proof -
  have g: "isJobRunning (guard (run [Trigger, Trigger, Settle, Trigger]))"
    by (simp add: run_def at_start_def enter_def finally_block_def)
  have r: "isJobRunning running" by (simp add: running_def)
  have i: "\<not> isJobRunning idle" by (simp add: idle_def)
  from checkJsonUpdates_single_flight [of running fetch_fails "verdict_collaborators True"
      "[Trigger, Trigger, Settle, Trigger]"]
    checkJsonUpdates_single_flight [of idle fetch_fails "verdict_collaborators True"
      "[Trigger, Trigger, Settle, Trigger]"] r i g
  show ?thesis by blast
qed


lemma compareJson_Some:
  "compareJson d a b = Some cs \<Longrightarrow> filter (\<lambda>c. added c \<or> removed c) cs = cs \<and> cs \<noteq> []"
  by (auto simp: compareJson_def Let_def split: if_splits)

lemma try_block_completed:
  assumes completed: "fst (try_block env) = Inr ()"
  shows "\<exists>currentState lastState.
      await_fetchJsonData env = Inr currentState \<and>
      await_readLastState env = Inr lastState \<and>
      (lastState \<noteq> JNull \<and> compareJson (diffJson_of env) lastState currentState = None \<longrightarrow>
         snd (try_block env) = [FetchJsonData, ReadLastState]) \<and>
      filter is_WriteState (snd (try_block env))
        = (if lastState = JNull \<or> compareJson (diffJson_of env) lastState currentState \<noteq> None
           then [WriteState currentState] else [])"
proof (cases "await_fetchJsonData env")
  case (Inl e)
  with completed show ?thesis
    by (simp add: try_block_def andThen_def await_def)
next
  case cur: (Inr currentState)
  show ?thesis
  proof (cases "\<not> typeof_object currentState \<or> currentState = JNull")
    case True
    with cur completed show ?thesis
      by (simp add: try_block_def andThen_def await_def)
  next
    case obj: False
    show ?thesis
    proof (cases "await_readLastState env")
      case (Inl e)
      with cur obj completed show ?thesis
        by (simp add: try_block_def andThen_def await_def)
    next
      case last: (Inr lastState)
      show ?thesis
      proof (cases "lastState = JNull")
        case True
        with cur obj last show ?thesis
          by (simp add: try_block_def andThen_def await_def)
      next
        case prior: False
        show ?thesis
        proof (cases "compareJson (diffJson_of env) lastState currentState")
          case None
          with cur obj last prior show ?thesis
            by (simp add: try_block_def andThen_def await_def)
        next
          case (Some cs)
          from compareJson_Some [OF Some]
          have cs: "filter (\<lambda>c. added c \<or> removed c) cs = cs" "cs \<noteq> []"
            by auto
          from cur obj last prior Some cs completed
          have w: "filter is_WriteState (snd (try_block env)) = [WriteState currentState]"
            by (auto simp: try_block_def andThen_def await_def Let_def
                split: sum.splits if_splits)
          with cur last prior Some show ?thesis
            by simp
        qed
      qed
    qed
  qed
qed

text \<open>
  C2. Take a cycle that runs to the end of its \<^verbatim>\<open>try\<close> block. Then the fetch and the
  read returned values, and \<open>writeState\<close> is called once with the fetched state if
  the stored state is absent or \<open>compareJson\<close> returned a ChangeSet, and not at all
  otherwise. The condition does not mention the verdict: the write follows a ChangeSet
  whether or not the summary is worth reporting. With a stored state and no ChangeSet the
  cycle consists of the fetch and the read alone: no summary, no notification, no write.
\<close>

theorem checkJsonUpdates_persists:
  "\<not> isJobRunning st \<longrightarrow> fst (try_block env) = Inr () \<longrightarrow>
   (\<exists>currentState lastState.
      await_fetchJsonData env = Inr currentState \<and>
      await_readLastState env = Inr lastState \<and>
      filter is_WriteState (snd (checkJsonUpdates env st))
        = (if lastState = JNull \<or> compareJson (diffJson_of env) lastState currentState \<noteq> None
           then [WriteState currentState] else []) \<and>
      (lastState \<noteq> JNull \<and> compareJson (diffJson_of env) lastState currentState = None \<longrightarrow>
         snd (checkJsonUpdates env st) = [FetchJsonData, ReadLastState]))"
proof (intro impI)
  assume idle: "\<not> isJobRunning st" and completed: "fst (try_block env) = Inr ()"
  then have same: "snd (checkJsonUpdates env st) = snd (try_block env)"
    by (cases "try_block env") (simp add: checkJsonUpdates_def enter_def)
  from try_block_completed [OF completed] obtain currentState lastState where
    f: "await_fetchJsonData env = Inr currentState"
    and r: "await_readLastState env = Inr lastState"
    and n: "lastState \<noteq> JNull \<and> compareJson (diffJson_of env) lastState currentState = None \<longrightarrow>
         snd (try_block env) = [FetchJsonData, ReadLastState]"
    and w: "filter is_WriteState (snd (try_block env))
        = (if lastState = JNull \<or> compareJson (diffJson_of env) lastState currentState \<noteq> None
           then [WriteState currentState] else [])"
    by blast
  show "\<exists>currentState lastState.
      await_fetchJsonData env = Inr currentState \<and>
      await_readLastState env = Inr lastState \<and>
      filter is_WriteState (snd (checkJsonUpdates env st))
        = (if lastState = JNull \<or> compareJson (diffJson_of env) lastState currentState \<noteq> None
           then [WriteState currentState] else []) \<and>
      (lastState \<noteq> JNull \<and> compareJson (diffJson_of env) lastState currentState = None \<longrightarrow>
         snd (checkJsonUpdates env st) = [FetchJsonData, ReadLastState])"
    apply (rule exI [of _ currentState])
    apply (rule exI [of _ lastState])
    using f r n w same apply simp
    done
qed

lemma compare_a1_a2:
  "compareJson whole_document_diff state_a1 state_a2 = Some (whole_document_diff state_a1 state_a2)"
  by (simp add: compareJson_def whole_document_diff_def state_a1_def state_a2_def)

lemma example_states:
  "typeof_object state_a2" "state_a2 \<noteq> JNull" "state_a1 \<noteq> JNull"
  by (simp_all add: typeof_object_def state_a1_def state_a2_def)

lemma unchanged_facts:
  "fst (try_block unchanged_collaborators) = Inr ()"
  "await_fetchJsonData unchanged_collaborators = Inr state_a1"
  "await_readLastState unchanged_collaborators = Inr state_a1"
  "diffJson_of unchanged_collaborators = whole_document_diff"
  by (simp_all add: try_block_def andThen_def await_def unchanged_collaborators_def
      verdict_collaborators_def example_states Let_def compareJson_def typeof_object_def
      state_a1_def)

lemma first_run_facts:
  "fst (try_block first_run_collaborators) = Inr ()"
  "await_fetchJsonData first_run_collaborators = Inr state_a2"
  "await_readLastState first_run_collaborators = Inr JNull"
  by (simp_all add: try_block_def andThen_def await_def first_run_collaborators_def
      verdict_collaborators_def example_states)

theorem checkJsonUpdates_persists_witness:
  "\<not> isJobRunning idle \<and>
   fst (try_block (verdict_collaborators False)) = Inr () \<and>
   filter is_WriteState (snd (checkJsonUpdates (verdict_collaborators False) idle))
     = [WriteState state_a2] \<and>
   fst (try_block first_run_collaborators) = Inr () \<and>
   filter is_WriteState (snd (checkJsonUpdates first_run_collaborators idle))
     = [WriteState state_a2] \<and>
   fst (try_block unchanged_collaborators) = Inr () \<and>
   snd (checkJsonUpdates unchanged_collaborators idle) = [FetchJsonData, ReadLastState]"
proof -
  have i: "\<not> isJobRunning idle" by (simp add: idle_def)
  have c: "fst (try_block (verdict_collaborators False)) = Inr ()"
    by (simp add: try_block_def andThen_def await_def verdict_collaborators_def compare_a1_a2
        example_states Let_def whole_document_diff_def)
  from checkJsonUpdates_persists [of idle "verdict_collaborators False", rule_format, OF i c]
  have one: "filter is_WriteState (snd (checkJsonUpdates (verdict_collaborators False) idle))
     = [WriteState state_a2]"
    by (auto simp: verdict_collaborators_def compare_a1_a2 example_states)
  from checkJsonUpdates_persists
    [of idle first_run_collaborators, rule_format, OF i first_run_facts(1)]
  have two: "filter is_WriteState (snd (checkJsonUpdates first_run_collaborators idle))
     = [WriteState state_a2]"
    by (auto simp: first_run_facts)
  have same: "compareJson whole_document_diff state_a1 state_a1 = None"
    by (simp add: compareJson_def)
  from checkJsonUpdates_persists
    [of idle unchanged_collaborators, rule_format, OF i unchanged_facts(1)]
  have three: "snd (checkJsonUpdates unchanged_collaborators idle) = [FetchJsonData, ReadLastState]"
    by (auto simp: unchanged_facts same example_states)
  from i c one two three first_run_facts(1) unchanged_facts(1) show ?thesis by blast
qed

end
